theory Spec2Isabelle
  imports Main "HOL-Library.Sublist" "HOL-Library.Multiset"
begin

section \<open>Strings of the host language\<close>

text \<open>
  A JavaScript string is modelled as a \<^typ>\<open>string\<close>: a list of code units, here the
  code units below 256 (the Latin-1 range). The three string methods that the note
  store calls are written out for that range.
\<close>

text \<open>
  \<^verbatim>\<open>String.prototype.trim\<close> removes white space and line terminators from both ends.
  In the modelled range these are TAB, LF, VT, FF, CR, SPACE and NO-BREAK SPACE.
\<close>

definition js_whitespace :: "char \<Rightarrow> bool" where
  "js_whitespace c = (of_char c \<in> {9, 10, 11, 12, 13, 32, 160 :: nat})"

definition trim :: "string \<Rightarrow> string" where
  "trim s = rev (dropWhile js_whitespace (rev (dropWhile js_whitespace s)))"

text \<open>
  \<^verbatim>\<open>String.prototype.toLowerCase\<close>: A-Z, and the Latin-1 capitals 192-222 except the
  multiplication sign 215, move up by 32; every other code unit of the range is kept.
\<close>

definition lower_char :: "char \<Rightarrow> char" where
  "lower_char c =
     (let n = (of_char c :: nat)
      in if (65 \<le> n \<and> n \<le> 90) \<or> (192 \<le> n \<and> n \<le> 222 \<and> n \<noteq> 215)
         then char_of (n + 32) else c)"

definition toLowerCase :: "string \<Rightarrow> string" where
  "toLowerCase s = map lower_char s"

text \<open>\<^verbatim>\<open>s.includes(t)\<close>: \<open>t\<close> occurs in \<open>s\<close> as a contiguous run of code units.\<close>

fun js_includes :: "string \<Rightarrow> string \<Rightarrow> bool" where
  "js_includes [] t = (t = [])"
| "js_includes (c # cs) t = (prefix t (c # cs) \<or> js_includes cs t)"

section \<open>Notes\<close>

text \<open>
  A note object. \<open>tags\<close> and \<open>category\<close> are properties that only the capture flows of
  the background script write; a note made in the popup does not have them.
  \<open>created\<close> and \<open>modified\<close> hold what \<^verbatim>\<open>new Date().toISOString()\<close> returned.
\<close>

record Note =
  note_id :: string
  title :: string
  content :: string
  tags :: "string list option"
  category :: "string option"
  created :: string
  modified :: string

section \<open>The popup: state, persistence backend, user interface\<close>

text \<open>
  Note objects live in a heap and are handled by reference: \<^verbatim>\<open>this.notes\<close> is an array of
  references, \<^verbatim>\<open>this.currentNote\<close> is a reference that may or may not be an element of
  that array. \<^verbatim>\<open>chrome.storage.local\<close> keeps a serialised copy under the key \<open>notes\<close>
  (\<open>None\<close>: the key is absent).
\<close>

type_synonym ref = nat

datatype event =
    Alert string
  | Confirm string
  | SaveStatus string string
  | ConsoleError string
  | StorageGet
  | StorageSet
  | Download string string
  | Notification string

record state =
  heap :: "ref \<Rightarrow> Note"
  next_ref :: ref
  "notes" :: "ref list"
  currentNote :: "ref option"
  isEditing :: bool
  exportFormat :: "string option"
  noteTitle :: "string option"
  noteEditor :: "string option"
  modalVisible :: bool
  rendered :: "Note list"
  storage :: "Note list option"
  events :: "event list"

text \<open>The in-memory collection: the objects that \<^verbatim>\<open>this.notes\<close> refers to, in order.\<close>

definition collection :: "state \<Rightarrow> Note list" where
  "collection s = map (heap s) (notes s)"

definition emit :: "event \<Rightarrow> state \<Rightarrow> state" where
  "emit e s = s\<lparr>events := events s @ [e]\<rparr>"

text \<open>
  What the environment supplies while one pass of \<^verbatim>\<open>saveCurrentNote\<close> runs: the clock
  reading of \<^verbatim>\<open>new Date().toISOString()\<close>, whether \<^verbatim>\<open>chrome.storage.local.set\<close> resolves,
  and the user's answer should \<^verbatim>\<open>closeNoteModal\<close> ask about unsaved changes afterwards.
\<close>

record turn =
  now :: string
  write_ok :: bool
  resave :: bool

text \<open>\<^verbatim>\<open>saveNotes\<close> (popup.js 86-93): the rejection is caught and logged, nothing is returned.\<close>

definition saveNotes :: "bool \<Rightarrow> state \<Rightarrow> state" where
  "saveNotes ok s =
     (let s1 = emit StorageSet s
      in if ok then s1\<lparr>storage := Some (collection s1)\<rparr>
         else emit (ConsoleError ''Error saving notes:'') s1)"

text \<open>
  \<^verbatim>\<open>renderNotes\<close> (popup.js 549-604): the list handed to the DOM is recorded; the markup
  built from it is not modelled.
\<close>

definition renderNotes :: "Note list \<Rightarrow> state \<Rightarrow> state" where
  "renderNotes ns s = s\<lparr>rendered := ns\<rparr>"

definition showSaveStatus :: "string \<Rightarrow> string \<Rightarrow> state \<Rightarrow> state" where
  "showSaveStatus message type s = emit (SaveStatus message type) s"

text \<open>\<^verbatim>\<open>hasUnsavedChanges\<close> (popup.js 401-413).\<close>

definition hasUnsavedChanges :: "state \<Rightarrow> bool" where
  "hasUnsavedChanges s =
     (case currentNote s of
        None \<Rightarrow> False
      | Some r \<Rightarrow>
          (case (noteTitle s, noteEditor s) of
             (Some t, Some c) \<Rightarrow> t \<noteq> title (heap s r) \<or> c \<noteq> content (heap s r)
           | _ \<Rightarrow> False))"

text \<open>The end of \<^verbatim>\<open>closeNoteModal\<close> (popup.js 390-395).\<close>

definition hideModal :: "state \<Rightarrow> state" where
  "hideModal s = s\<lparr>modalVisible := False, isEditing := False, currentNote := None\<rparr>"

text \<open>\<^verbatim>\<open>findIndex\<close>: the first index whose element satisfies the predicate, \<open>None\<close> for -1.\<close>

fun findIndex :: "('a \<Rightarrow> bool) \<Rightarrow> 'a list \<Rightarrow> nat option" where
  "findIndex P [] = None"
| "findIndex P (x # xs) =
     (if P x then Some 0 else map_option Suc (findIndex P xs))"

text \<open>
  Lines 437-448 of \<^verbatim>\<open>saveCurrentNote\<close>: the three assignments go through the reference
  \<open>r\<close>, so they are seen through every alias of the object; then the reference is put at
  the front of the array or stored at the index found.
\<close>

definition updateNote :: "string \<Rightarrow> string \<Rightarrow> string \<Rightarrow> Note \<Rightarrow> Note" where
  "updateNote t c time n =
     n\<lparr>title := (if t = [] then ''Untitled Note'' else t), content := c, modified := time\<rparr>"

definition upsertCurrent :: "string \<Rightarrow> string \<Rightarrow> string \<Rightarrow> ref \<Rightarrow> state \<Rightarrow> state" where
  "upsertCurrent t c time r s =
     (let s1 = s\<lparr>heap := (heap s)(r := updateNote t c time (heap s r))\<rparr>
      in case findIndex (\<lambda>n. note_id (heap s1 n) = note_id (heap s1 r)) (notes s1) of
           None \<Rightarrow> s1\<lparr>notes := r # notes s1\<rparr>
         | Some i \<Rightarrow> s1\<lparr>notes := (notes s1)[i := r]\<rparr>)"

text \<open>
  How \<^verbatim>\<open>this.currentNote\<close> stands to \<^verbatim>\<open>this.notes\<close>: the array holds no object twice, and
  if the current note is an element of the array, it is the element that a lookup by its
  id finds. A new note is not in the array, and a note opened from the list was found by
  its id.
\<close>

definition currentPlaced :: "state \<Rightarrow> bool" where
  "currentPlaced s =
     (distinct (notes s) \<and>
      (case currentNote s of
         None \<Rightarrow> True
       | Some r \<Rightarrow>
           r \<in> set (notes s) \<longrightarrow>
           find (\<lambda>a. note_id (heap s a) = note_id (heap s r)) (notes s) = Some r))"

text \<open>
  \<^verbatim>\<open>saveCurrentNote\<close> (popup.js 418-460) and \<^verbatim>\<open>closeNoteModal\<close> (popup.js 382-396) call
  each other: a save with feedback ends by closing the modal, and closing a modal with
  unsaved changes saves again when the user says so. Each pass that reaches the write
  takes one \<^typ>\<open>turn\<close>; \<open>None\<close> means that the run needs a turn that the environment has
  not supplied, that is, it has not finished.
\<close>

function saveCurrentNote :: "bool \<Rightarrow> turn list \<Rightarrow> state \<Rightarrow> state option"
  and closeNoteModal :: "bool \<Rightarrow> turn list \<Rightarrow> state \<Rightarrow> state option" where
  "saveCurrentNote showFeedback ts s =
     (case currentNote s of
        None \<Rightarrow> Some s
      | Some r \<Rightarrow>
          (case (noteTitle s, noteEditor s) of
             (Some titleValue, Some editorHtml) \<Rightarrow>
               (let t = trim titleValue; c = trim editorHtml
                in if t = [] \<and> c = [] then
                     Some (if showFeedback
                           then emit (Alert ''Please add a title or content to save the note.'') s
                           else s)
                   else
                     (case ts of
                        [] \<Rightarrow> None
                      | e # ts' \<Rightarrow>
                          (let s1 = upsertCurrent t c (now e) r s;
                               s2 = saveNotes (write_ok e) s1;
                               s3 = renderNotes (collection s2) s2
                           in if showFeedback
                              then closeNoteModal (resave e) ts'
                                     (showSaveStatus ''Note saved successfully!'' ''success'' s3)
                              else Some s3)))
           | _ \<Rightarrow> Some s))"
| "closeNoteModal answer ts s =
     (if isEditing s \<and> hasUnsavedChanges s then
        (let s1 = emit (Confirm ''You have unsaved changes. Do you want to save before closing?'') s
         in if answer then saveCurrentNote True ts s1 else Some (hideModal s1))
      else Some (hideModal s))"
  by pat_completeness auto
termination
  by (relation "measure (\<lambda>x. case x of
                   Inl (_, ts, _) \<Rightarrow> 2 * length ts + 1
                 | Inr (_, ts, _) \<Rightarrow> 2 * length ts + 2)") auto

declare saveCurrentNote.simps [simp del] closeNoteModal.simps [simp del]

text \<open>\<^verbatim>\<open>deleteNote\<close> (popup.js 497-504); \<open>answer\<close> is what the user tells \<^verbatim>\<open>confirm\<close>.\<close>

definition deleteNote :: "string \<Rightarrow> bool \<Rightarrow> bool \<Rightarrow> state \<Rightarrow> state" where
  "deleteNote noteId answer ok s =
     (let s1 = emit (Confirm ''Are you sure you want to delete this note?'') s
      in if answer then
           (let s2 = s1\<lparr>notes := filter (\<lambda>r. note_id (heap s1 r) \<noteq> noteId) (notes s1)\<rparr>;
                s3 = saveNotes ok s2;
                s4 = renderNotes (collection s3) s3
            in showSaveStatus ''Note deleted'' ''success'' s4)
         else s1)"

text \<open>\<^verbatim>\<open>searchNotes\<close> (popup.js 509-522); its result is the list it hands to \<^verbatim>\<open>renderNotes\<close>.\<close>

definition matchesTerm :: "string \<Rightarrow> Note \<Rightarrow> bool" where
  "matchesTerm searchTerm n =
     (js_includes (toLowerCase (title n)) searchTerm
      \<or> js_includes (toLowerCase (content n)) searchTerm)"

definition searchNotes :: "string \<Rightarrow> state \<Rightarrow> state" where
  "searchNotes query s =
     (let searchTerm = trim (toLowerCase query)
      in if searchTerm = [] then renderNotes (collection s) s
         else renderNotes (filter (matchesTerm searchTerm) (collection s)) s)"

text \<open>
  What the browser supplies to the functions below and is not code of the repository:
  \<open>getTime d\<close> is \<^verbatim>\<open>new Date(d).getTime()\<close> (\<open>None\<close> for \<^verbatim>\<open>NaN\<close>, an invalid date),
  \<open>toLocaleDateString d\<close> is \<^verbatim>\<open>new Date(d).toLocaleDateString()\<close>, \<open>domText\<close> maps markup
  assigned to \<^verbatim>\<open>innerHTML\<close> to the element's \<^verbatim>\<open>textContent\<close>, and \<open>domMarkup\<close> maps a text
  assigned to \<^verbatim>\<open>textContent\<close> to the element's \<^verbatim>\<open>innerHTML\<close>.
\<close>

record host =
  getTime :: "string \<Rightarrow> int option"
  toLocaleDateString :: "string \<Rightarrow> string"
  domText :: "string \<Rightarrow> string"
  domMarkup :: "string \<Rightarrow> string"

text \<open>
  \<^verbatim>\<open>Array.prototype.sort\<close> with a comparison function: the sort is stable, and a
  comparison that yields \<^verbatim>\<open>NaN\<close> counts as 0. It is written as insertion from the right,
  which puts an element in front of the first one it does not come after.
\<close>

fun insertBy :: "('a \<Rightarrow> 'a \<Rightarrow> int) \<Rightarrow> 'a \<Rightarrow> 'a list \<Rightarrow> 'a list" where
  "insertBy cmp x [] = [x]"
| "insertBy cmp x (y # ys) = (if cmp x y \<le> 0 then x # y # ys else y # insertBy cmp x ys)"

definition js_sort :: "('a \<Rightarrow> 'a \<Rightarrow> int) \<Rightarrow> 'a list \<Rightarrow> 'a list" where
  "js_sort cmp xs = foldr (insertBy cmp) xs []"

text \<open>
  The comparison of \<^verbatim>\<open>loadNotes\<close>, \<^verbatim>\<open>new Date(b.modified) - new Date(a.modified)\<close>; the
  difference is \<^verbatim>\<open>NaN\<close> when either date is invalid.
\<close>

definition compareModified :: "(string \<Rightarrow> int option) \<Rightarrow> Note \<Rightarrow> Note \<Rightarrow> int" where
  "compareModified D a b =
     (case (D (modified b), D (modified a)) of
        (Some tb, Some ta) \<Rightarrow> tb - ta
      | _ \<Rightarrow> 0)"

text \<open>
  \<^verbatim>\<open>loadNotes\<close> (popup.js 68-81). \<open>ok\<close> says whether \<^verbatim>\<open>chrome.storage.local.get\<close> resolves.
  The stored notes arrive as new objects, one per stored note.
\<close>

definition loadNotes :: "(string \<Rightarrow> int option) \<Rightarrow> bool \<Rightarrow> state \<Rightarrow> state" where
  "loadNotes D ok s =
     (let s1 = emit StorageGet s
      in if ok then
           (let stored = (case storage s1 of None \<Rightarrow> [] | Some ns \<Rightarrow> ns);
                base = next_ref s1;
                h = (\<lambda>a. if base \<le> a \<and> a < base + length stored
                         then stored ! (a - base) else heap s1 a)
            in s1\<lparr>heap := h, next_ref := base + length stored,
                  notes := js_sort (\<lambda>a b. compareModified D (h a) (h b))
                             [base ..< base + length stored]\<rparr>)
         else (emit (ConsoleError ''Error loading notes:'') s1)\<lparr>notes := []\<rparr>)"

text \<open>
  What the environment supplies when a note object is made: the result of
  \<^verbatim>\<open>generateId()\<close> and the two clock readings, taken one after the other, that become
  \<open>created\<close> and \<open>modified\<close>.
\<close>

record creation =
  generatedId :: string
  createdAt :: string
  modifiedAt :: string

text \<open>\<^verbatim>\<open>openNoteModal\<close> (popup.js 352-377) and \<^verbatim>\<open>createNewNote\<close> (popup.js 335-347).\<close>

definition openNoteModal :: "ref \<Rightarrow> state \<Rightarrow> state" where
  "openNoteModal r s =
     s\<lparr>currentNote := Some r, isEditing := True,
       noteTitle := map_option (\<lambda>_. title (heap s r)) (noteTitle s),
       noteEditor := map_option (\<lambda>_. content (heap s r)) (noteEditor s),
       modalVisible := True\<rparr>"


text \<open>
  The click handler that \<^verbatim>\<open>renderNotes\<close> installs on a note item (popup.js 567-576):
  the note is looked up by id with \<^verbatim>\<open>find\<close>, the first match; a click on an item whose
  id is no longer in the array passes \<^verbatim>\<open>undefined\<close> and \<^verbatim>\<open>openNoteModal\<close> throws.
\<close>

definition openNote :: "string \<Rightarrow> state \<Rightarrow> state option" where
  "openNote noteId s =
     (case find (\<lambda>r. note_id (heap s r) = noteId) (notes s) of
        None \<Rightarrow> None
      | Some r \<Rightarrow> Some (openNoteModal r s))"

section \<open>The background script\<close>

text \<open>
  \<^verbatim>\<open>saveNote\<close> (background.js 110-119): read the stored array, put the note in front,
  write it back; a rejection of either call is caught and logged.
\<close>

definition saveNote :: "Note \<Rightarrow> bool \<Rightarrow> bool \<Rightarrow> state \<Rightarrow> state" where
  "saveNote n read_ok set_ok s =
     (let s1 = emit StorageGet s
      in if read_ok then
           (let ns = n # (case storage s1 of None \<Rightarrow> [] | Some xs \<Rightarrow> xs);
                s2 = emit StorageSet s1
            in if set_ok then s2\<lparr>storage := Some ns\<rparr>
               else emit (ConsoleError ''Error saving note:'') s2)
         else emit (ConsoleError ''Error saving note:'') s1)"

definition showNotification :: "string \<Rightarrow> state \<Rightarrow> state" where
  "showNotification message s = emit (Notification message) s"

text \<open>
  \<^verbatim>\<open>saveSelectedText\<close> (background.js 71-87) and \<^verbatim>\<open>savePageInfo\<close> (background.js 92-105).
  \<open>selectionText\<close> is \<open>None\<close> when the property is undefined; \<open>savedAt\<close> is the result of
  \<^verbatim>\<open>new Date().toLocaleString()\<close>.
\<close>

definition selectionNote :: "host \<Rightarrow> creation \<Rightarrow> string \<Rightarrow> string \<Rightarrow> string \<Rightarrow> Note" where
  "selectionNote h env selectedText tabTitle tabUrl =
     \<lparr>note_id = generatedId env,
      title = ''Selection from '' @ tabTitle,
      content = ''<p>'' @ domMarkup h selectedText @ ''</p><br><p><em>Source: <a href='' @ [CHR 0x22]
                @ tabUrl @ [CHR 0x22] @ ''>'' @ tabTitle @ ''</a></em></p>'',
      tags = Some [''web-clip''], category = Some ''web'',
      created = createdAt env, modified = modifiedAt env\<rparr>"

definition saveSelectedText ::
  "host \<Rightarrow> creation \<Rightarrow> string option \<Rightarrow> string \<Rightarrow> string \<Rightarrow> bool \<Rightarrow> bool \<Rightarrow> state \<Rightarrow> state" where
  "saveSelectedText h env selectionText tabTitle tabUrl read_ok set_ok s =
     (case selectionText of
        None \<Rightarrow> s
      | Some selectedText \<Rightarrow>
          if selectedText = [] then s
          else showNotification ''Text saved to NoteMaster!''
                 (saveNote (selectionNote h env selectedText tabTitle tabUrl) read_ok set_ok s))"

definition pageNote :: "creation \<Rightarrow> string \<Rightarrow> string \<Rightarrow> string \<Rightarrow> Note" where
  "pageNote env savedAt tabTitle tabUrl =
     \<lparr>note_id = generatedId env,
      title = tabTitle,
      content = ''<p><strong>URL:</strong> <a href='' @ [CHR 0x22] @ tabUrl @ [CHR 0x22] @ ''>''
                @ tabUrl @ ''</a></p><p><strong>Saved:</strong> '' @ savedAt @ ''</p>'',
      tags = Some [''bookmark'', ''web-clip''], category = Some ''web'',
      created = createdAt env, modified = modifiedAt env\<rparr>"

definition savePageInfo ::
  "creation \<Rightarrow> string \<Rightarrow> string \<Rightarrow> string \<Rightarrow> bool \<Rightarrow> bool \<Rightarrow> state \<Rightarrow> state" where
  "savePageInfo env savedAt tabTitle tabUrl read_ok set_ok s =
     showNotification ''Page saved to NoteMaster!''
       (saveNote (pageNote env savedAt tabTitle tabUrl) read_ok set_ok s)"

section \<open>Export\<close>

subsection \<open>Global replacement with a regular expression\<close>

text \<open>
  \<^verbatim>\<open>s.replace(re, replacement)\<close> for a regular expression with the \<open>g\<close> flag that never
  matches the empty string. The expression is given as a function that, applied to
  the text from some index on, yields the replacement and the length of the match when
  the expression matches at that index. The scan goes from left to right: where the
  expression matches, the replacement is put out and the scan goes on behind the
  match; where it does not, the code unit is put out. The first argument counts the
  code units of a match that are still to be passed over.
\<close>

type_synonym matcher = "string \<Rightarrow> (string \<times> nat) option"

fun replaceFrom :: "nat \<Rightarrow> matcher \<Rightarrow> string \<Rightarrow> string" where
  "replaceFrom k m [] = []"
| "replaceFrom (Suc k) m (c # cs) = replaceFrom k m cs"
| "replaceFrom 0 m (c # cs) =
     (case m (c # cs) of
        Some (replacement, n) \<Rightarrow> replacement @ replaceFrom (n - 1) m cs
      | None \<Rightarrow> c # replaceFrom 0 m cs)"

definition replaceAll :: "matcher \<Rightarrow> string \<Rightarrow> string" where
  "replaceAll m s = replaceFrom 0 m s"

text \<open>
  \<open>.*?\<close> followed by a literal: the shortest run of code units, none of them a line
  terminator (LF or CR in the modelled range), after which the literal stands.
\<close>

definition lineTerminator :: "char \<Rightarrow> bool" where
  "lineTerminator c = (of_char c \<in> {10, 13 :: nat})"

fun lazyUntil :: "string \<Rightarrow> string \<Rightarrow> string option" where
  "lazyUntil lit [] = (if lit = [] then Some [] else None)"
| "lazyUntil lit (c # cs) =
     (if prefix lit (c # cs) then Some []
      else if lineTerminator c then None
      else map_option ((#) c) (lazyUntil lit cs))"

text \<open>
  The expressions of \<^verbatim>\<open>htmlToMarkdown\<close>: \<^verbatim>\<open><tag>(.*?)</tag>\<close> with a replacement built
  from the group, a literal, \<^verbatim>\<open><br\s*\/?>\<close> and \<^verbatim>\<open><[^>]*>\<close>.
\<close>

definition tagPair :: "string \<Rightarrow> string \<Rightarrow> (string \<Rightarrow> string) \<Rightarrow> matcher" where
  "tagPair opening closing replacement s =
     (if prefix opening s then
        (case lazyUntil closing (drop (length opening) s) of
           Some captured \<Rightarrow>
             Some (replacement captured, length opening + length captured + length closing)
         | None \<Rightarrow> None)
      else None)"

definition literal :: "string \<Rightarrow> string \<Rightarrow> matcher" where
  "literal lit replacement s = (if prefix lit s then Some (replacement, length lit) else None)"

definition lineBreak :: "string \<Rightarrow> matcher" where
  "lineBreak replacement s =
     (if prefix ''<br'' s then
        (let spaces = takeWhile js_whitespace (drop 3 s);
             rest = dropWhile js_whitespace (drop 3 s)
         in if prefix ''/>'' rest then Some (replacement, 3 + length spaces + 2)
            else if prefix ''>'' rest then Some (replacement, 3 + length spaces + 1)
            else None)
      else None)"

definition anyTag :: "string \<Rightarrow> matcher" where
  "anyTag replacement s =
     (case s of
        [] \<Rightarrow> None
      | c # cs \<Rightarrow>
          if c = CHR ''<'' \<and> CHR ''>'' \<in> set cs
          then Some (replacement, 1 + length (takeWhile (\<lambda>x. x \<noteq> CHR ''>'') cs) + 1)
          else None)"

text \<open>\<^verbatim>\<open>htmlToMarkdown\<close> (popup.js 804-820, options.js the same): thirteen passes in order.\<close>

definition substitutions :: "matcher list" where
  "substitutions =
     [tagPair ''<strong>'' ''</strong>'' (\<lambda>g. ''**'' @ g @ ''**''),
      tagPair ''<b>'' ''</b>'' (\<lambda>g. ''**'' @ g @ ''**''),
      tagPair ''<em>'' ''</em>'' (\<lambda>g. ''*'' @ g @ ''*''),
      tagPair ''<i>'' ''</i>'' (\<lambda>g. ''*'' @ g @ ''*''),
      tagPair ''<u>'' ''</u>'' (\<lambda>g. ''_'' @ g @ ''_''),
      literal ''<ul>'' [],
      literal ''</ul>'' [],
      literal ''<ol>'' [],
      literal ''</ol>'' [],
      tagPair ''<li>'' ''</li>'' (\<lambda>g. ''- '' @ g),
      lineBreak [CHR 0x0A],
      tagPair ''<p>'' ''</p>'' (\<lambda>g. g @ [CHR 0x0A, CHR 0x0A]),
      anyTag []]"

definition htmlToMarkdown :: "string \<Rightarrow> string" where
  "htmlToMarkdown html = foldl (\<lambda>s m. replaceAll m s) html substitutions"

subsection \<open>Dates and numbers as text\<close>

fun showNat :: "nat \<Rightarrow> string" where
  "showNat n =
     (if n < 10 then [char_of (48 + n)] else showNat (n div 10) @ [char_of (48 + n mod 10)])"

declare showNat.simps [simp del]

definition showInt :: "int \<Rightarrow> string" where
  "showInt i = (if i < 0 then CHR ''-'' # showNat (nat (- i)) else showNat (nat i))"

text \<open>
  \<^verbatim>\<open>formatDate\<close> of the popup (popup.js 775-790). \<open>nowMs\<close> is the clock reading of
  \<^verbatim>\<open>new Date()\<close>. With an invalid date every comparison with \<^verbatim>\<open>NaN\<close> fails and the last
  branch is taken.
\<close>

definition formatDate :: "host \<Rightarrow> int \<Rightarrow> string \<Rightarrow> string" where
  "formatDate h nowMs dateString =
     (case getTime h dateString of
        None \<Rightarrow> toLocaleDateString h dateString
      | Some date \<Rightarrow>
          (let diffTime = \<bar>nowMs - date\<bar>;
               diffDays = (diffTime + 86399999) div 86400000
           in if diffDays = 1 then ''Today''
              else if diffDays = 2 then ''Yesterday''
              else if diffDays \<le> 7 then showInt (diffDays - 1) @ '' days ago''
              else toLocaleDateString h dateString))"

text \<open>
  \<^verbatim>\<open>stripHtml\<close> and \<^verbatim>\<open>escapeHtml\<close> (popup.js 792-802) go through a detached element of the
  document.
\<close>

definition stripHtml :: "host \<Rightarrow> string \<Rightarrow> string" where
  "stripHtml h html = domText h html"

definition escapeHtml :: "host \<Rightarrow> string \<Rightarrow> string" where
  "escapeHtml h text = domMarkup h text"

subsection \<open>The structured-data format\<close>

text \<open>
  The values that a note array is made of: strings, arrays and objects (an object as
  the list of its properties, in order).
\<close>

datatype json = JString string | JArray "json list" | JObject "(string \<times> json) list"

text \<open>
  \<^verbatim>\<open>JSON.stringify(value, null, 2)\<close>. A string is quoted with the two-character escapes
  for the quotation mark, the backslash, BS, FF, LF, CR and TAB, and \<^verbatim>\<open>\u00XX\<close> for the
  other code units below 32. A non-empty array or object puts each element on a line
  of its own, indented by two more spaces than the line that opens it.
\<close>

definition hexDigit :: "nat \<Rightarrow> char" where
  "hexDigit n = ''0123456789abcdef'' ! n"

definition quoteChar :: "char \<Rightarrow> string" where
  "quoteChar c =
     (if c = CHR 0x22 then [CHR 0x5C, CHR 0x22]
      else if c = CHR 0x5C then [CHR 0x5C, CHR 0x5C]
      else if c = CHR 0x08 then [CHR 0x5C, CHR ''b'']
      else if c = CHR 0x0C then [CHR 0x5C, CHR ''f'']
      else if c = CHR 0x0A then [CHR 0x5C, CHR ''n'']
      else if c = CHR 0x0D then [CHR 0x5C, CHR ''r'']
      else if c = CHR 0x09 then [CHR 0x5C, CHR ''t'']
      else if (of_char c :: nat) < 32
        then [CHR 0x5C, CHR ''u'', CHR ''0'', CHR ''0'',
              hexDigit (of_char c div 16), hexDigit (of_char c mod 16)]
      else [c])"

definition QuoteJSONString :: "string \<Rightarrow> string" where
  "QuoteJSONString s = CHR 0x22 # concat (map quoteChar s) @ [CHR 0x22]"

fun stringify :: "string \<Rightarrow> json \<Rightarrow> string"
  and stringifyElements :: "string \<Rightarrow> json list \<Rightarrow> string"
  and stringifyMembers :: "string \<Rightarrow> (string \<times> json) list \<Rightarrow> string" where
  "stringify indent (JString s) = QuoteJSONString s"
| "stringify indent (JArray []) = ''[]''"
| "stringify indent (JArray (v # vs)) =
     ''['' @ stringifyElements (indent @ ''  '') (v # vs) @ CHR 0x0A # indent @ '']''"
| "stringify indent (JObject []) = ''{}''"
| "stringify indent (JObject (m # ms)) =
     ''{'' @ stringifyMembers (indent @ ''  '') (m # ms) @ CHR 0x0A # indent @ ''}''"
| "stringifyElements stepback [] = []"
| "stringifyElements stepback (v # vs) =
     CHR 0x0A # stepback @ stringify stepback v
     @ (if vs = [] then [] else '','' @ stringifyElements stepback vs)"
| "stringifyMembers stepback [] = []"
| "stringifyMembers stepback ((k, v) # ms) =
     CHR 0x0A # stepback @ QuoteJSONString k @ '': '' @ stringify stepback v
     @ (if ms = [] then [] else '','' @ stringifyMembers stepback ms)"

definition JSON_stringify :: "json \<Rightarrow> string" where
  "JSON_stringify v = stringify [] v"

text \<open>
  A note object as a value: its properties in the order in which the object literals
  of the repository list them; \<open>tags\<close> and \<open>category\<close> only where the note has them.
\<close>

definition noteToJson :: "Note \<Rightarrow> json" where
  "noteToJson n =
     JObject
       ([(''id'', JString (note_id n)), (''title'', JString (title n)),
         (''content'', JString (content n))]
        @ (case tags n of None \<Rightarrow> [] | Some ts \<Rightarrow> [(''tags'', JArray (map JString ts))])
        @ (case category n of None \<Rightarrow> [] | Some c \<Rightarrow> [(''category'', JString c)])
        @ [(''created'', JString (created n)), (''modified'', JString (modified n))])"

subsection \<open>Exporting from the popup\<close>

definition popupHtmlHead :: string where
  \<open>popupHtmlHead =
       ''\<newline>''
     @ ''<!DOCTYPE html>\<newline>''
     @ ''<html>\<newline>''
     @ ''<head>\<newline>''
     @ ''    <title>NoteMaster Export</title>\<newline>''
     @ ''    <style>\<newline>''
     @ ''        body { font-family: Arial, sans-serif; max-width: 800px; margin: 0 auto; padding: 20px; }\<newline>''
     @ ''        .note { margin-bottom: 40px; border-bottom: 1px solid #eee; padding-bottom: 20px; }\<newline>''
     @ ''        .note-title { font-size: 24px; font-weight: bold; margin-bottom: 10px; }\<newline>''
     @ ''        .note-meta { color: #666; font-size: 14px; margin-bottom: 15px; }\<newline>''
     @ ''        .note-content { line-height: 1.6; }\<newline>''
     @ ''    </style>\<newline>''
     @ ''</head>\<newline>''
     @ ''<body>\<newline>''
     @ ''    <h1>NoteMaster Export</h1>\<newline>''
     @ ''    <p>Exported on ''\<close>

definition popupHtmlMid :: string where
  \<open>popupHtmlMid =
       ''</p>\<newline>''
     @ ''    ''\<close>

definition popupNoteOpen :: string where
  \<open>popupNoteOpen =
       ''\<newline>''
     @ ''        <div class="note">\<newline>''
     @ ''            <div class="note-title">''\<close>

definition popupNoteMeta :: string where
  \<open>popupNoteMeta =
       ''</div>\<newline>''
     @ ''            <div class="note-meta">Modified: ''\<close>

definition popupNoteContent :: string where
  \<open>popupNoteContent =
       ''</div>\<newline>''
     @ ''            <div class="note-content">''\<close>

definition popupNoteClose :: string where
  \<open>popupNoteClose =
       ''</div>\<newline>''
     @ ''        </div>\<newline>''
     @ ''    ''\<close>

definition popupHtmlTail :: string where
  \<open>popupHtmlTail =
       ''\<newline>''
     @ ''</body>\<newline>''
     @ ''</html>''\<close>


text \<open>
  What the environment supplies to an export: the results of
  \<^verbatim>\<open>new Date().toISOString()\<close> and \<^verbatim>\<open>new Date().toLocaleDateString()\<close>, and the clock
  reading in milliseconds that \<^verbatim>\<open>formatDate\<close> compares with (one reading stands for
  the readings taken while the notes are mapped).
\<close>

record export_env =
  isoNow :: string
  localeToday :: string
  msNow :: int

definition txtEntry :: "host \<Rightarrow> Note \<Rightarrow> string" where
  "txtEntry h n =
     ''Title: '' @ title n @ [CHR 0x0A] @ ''Date: '' @ modified n @ [CHR 0x0A, CHR 0x0A]
     @ stripHtml h (content n) @ [CHR 0x0A, CHR 0x0A] @ replicate 50 CHR ''=''
     @ [CHR 0x0A, CHR 0x0A]"

definition mdEntry :: "string \<Rightarrow> Note \<Rightarrow> string" where
  "mdEntry formattedDate n =
     ''# '' @ title n @ [CHR 0x0A, CHR 0x0A] @ ''*Modified: '' @ formattedDate @ ''*''
     @ [CHR 0x0A, CHR 0x0A] @ htmlToMarkdown (content n) @ [CHR 0x0A, CHR 0x0A] @ ''---''
     @ [CHR 0x0A, CHR 0x0A]"

definition popupHtmlEntry :: "host \<Rightarrow> int \<Rightarrow> Note \<Rightarrow> string" where
  "popupHtmlEntry h nowMs n =
     popupNoteOpen @ escapeHtml h (title n) @ popupNoteMeta @ formatDate h nowMs (modified n)
     @ popupNoteContent @ content n @ popupNoteClose"

definition downloadFile :: "string \<Rightarrow> string \<Rightarrow> state \<Rightarrow> state" where
  "downloadFile fileContent filename s = emit (Download fileContent filename) s"

text \<open>
  \<^verbatim>\<open>exportAllNotes\<close> of the popup (popup.js 648-710). An empty or missing format setting
  counts as \<open>json\<close>; a format that is none of the four leaves the content empty and the
  file name without extension.
\<close>

definition exportContent :: "host \<Rightarrow> export_env \<Rightarrow> string \<Rightarrow> Note list \<Rightarrow> string \<times> string" where
  "exportContent h env format ns =
     (if format = ''json'' then (JSON_stringify (JArray (map noteToJson ns)), ''.json'')
      else if format = ''txt'' then (concat (map (txtEntry h) ns), ''.txt'')
      else if format = ''md'' then
        (concat (map (\<lambda>n. mdEntry (formatDate h (msNow env) (modified n)) n) ns), ''.md'')
      else if format = ''html'' then
        (popupHtmlHead @ localeToday env @ popupHtmlMid
         @ concat (map (popupHtmlEntry h (msNow env)) ns) @ popupHtmlTail, ''.html'')
      else ([], []))"

definition exportAllNotes :: "host \<Rightarrow> export_env \<Rightarrow> state \<Rightarrow> state" where
  "exportAllNotes h env s =
     (let format = (case exportFormat s of
                      None \<Rightarrow> ''json''
                    | Some f \<Rightarrow> if f = [] then ''json'' else f);
          filename = ''notes_'' @ takeWhile (\<lambda>c. c \<noteq> CHR ''T'') (isoNow env);
          (fileContent, extension) = exportContent h env format (collection s)
      in showSaveStatus ''All notes exported!'' ''success''
           (downloadFile fileContent (filename @ extension) s))"

section \<open>The options page\<close>

definition optionsHtmlHead :: string where
  \<open>optionsHtmlHead =
       ''\<newline>''
     @ ''<!DOCTYPE html>\<newline>''
     @ ''<html>\<newline>''
     @ ''<head>\<newline>''
     @ ''    <title>NoteMaster Export</title>\<newline>''
     @ ''    <meta charset="UTF-8">\<newline>''
     @ ''    <style>\<newline>''
     @ ''        body { \<newline>''
     @ ''            font-family: -apple-system, BlinkMacSystemFont, 'Segoe UI', Roboto, sans-serif;\<newline>''
     @ ''            max-width: 800px; \<newline>''
     @ ''            margin: 0 auto; \<newline>''
     @ ''            padding: 20px;\<newline>''
     @ ''            line-height: 1.6;\<newline>''
     @ ''            color: #333;\<newline>''
     @ ''        }\<newline>''
     @ ''        .header {\<newline>''
     @ ''            text-align: center;\<newline>''
     @ ''            margin-bottom: 40px;\<newline>''
     @ ''            padding-bottom: 20px;\<newline>''
     @ ''            border-bottom: 2px solid #eee;\<newline>''
     @ ''        }\<newline>''
     @ ''        .note { \<newline>''
     @ ''            margin-bottom: 40px; \<newline>''
     @ ''            border-bottom: 1px solid #eee; \<newline>''
     @ ''            padding-bottom: 20px; \<newline>''
     @ ''        }\<newline>''
     @ ''        .note-title { \<newline>''
     @ ''            font-size: 24px; \<newline>''
     @ ''            font-weight: bold; \<newline>''
     @ ''            margin-bottom: 10px;\<newline>''
     @ ''            color: #2563eb;\<newline>''
     @ ''        }\<newline>''
     @ ''        .note-meta { \<newline>''
     @ ''            color: #666; \<newline>''
     @ ''            font-size: 14px; \<newline>''
     @ ''            margin-bottom: 15px;\<newline>''
     @ ''        }\<newline>''
     @ ''        .note-content { \<newline>''
     @ ''            line-height: 1.6;\<newline>''
     @ ''            margin-top: 15px;\<newline>''
     @ ''        }\<newline>''
     @ ''        .export-info {\<newline>''
     @ ''            color: #666;\<newline>''
     @ ''            font-size: 14px;\<newline>''
     @ ''        }\<newline>''
     @ ''        @media (max-width: 600px) {\<newline>''
     @ ''            body { padding: 15px; }\<newline>''
     @ ''            .note-title { font-size: 20px; }\<newline>''
     @ ''        }\<newline>''
     @ ''    </style>\<newline>''
     @ ''</head>\<newline>''
     @ ''<body>\<newline>''
     @ ''    <div class="header">\<newline>''
     @ ''        <h1>NoteMaster Export</h1>\<newline>''
     @ ''        <p class="export-info">Exported on ''\<close>

definition optionsHtmlCount :: string where
  \<open>optionsHtmlCount =
       '' | ''\<close>

definition optionsHtmlMid :: string where
  \<open>optionsHtmlMid =
       '' notes</p>\<newline>''
     @ ''    </div>\<newline>''
     @ ''    ''\<close>

definition optionsNoteOpen :: string where
  \<open>optionsNoteOpen =
       ''\<newline>''
     @ ''        <div class="note">\<newline>''
     @ ''            <div class="note-title">''\<close>

definition optionsNoteMeta :: string where
  \<open>optionsNoteMeta =
       ''</div>\<newline>''
     @ ''            <div class="note-meta">Modified: ''\<close>

definition optionsNoteContent :: string where
  \<open>optionsNoteContent =
       ''</div>\<newline>''
     @ ''            <div class="note-content">''\<close>

definition optionsNoteClose :: string where
  \<open>optionsNoteClose =
       ''</div>\<newline>''
     @ ''        </div>\<newline>''
     @ ''    ''\<close>

definition optionsHtmlTail :: string where
  \<open>optionsHtmlTail =
       ''\<newline>''
     @ ''</body>\<newline>''
     @ ''</html>''\<close>

text \<open>\<^verbatim>\<open>formatDate\<close> of the options page (options.js) and \<^verbatim>\<open>generateHtmlExport\<close>.\<close>

definition optionsFormatDate :: "host \<Rightarrow> string \<Rightarrow> string" where
  "optionsFormatDate h dateString = toLocaleDateString h dateString"

definition optionsHtmlEntry :: "host \<Rightarrow> Note \<Rightarrow> string" where
  "optionsHtmlEntry h n =
     optionsNoteOpen @ escapeHtml h (if title n = [] then ''Untitled Note'' else title n)
     @ optionsNoteMeta @ optionsFormatDate h (modified n)
     @ optionsNoteContent @ (if content n = [] then ''<em>No content</em>'' else content n)
     @ optionsNoteClose"

definition generateHtmlExport :: "host \<Rightarrow> export_env \<Rightarrow> Note list \<Rightarrow> string" where
  "generateHtmlExport h env ns =
     optionsHtmlHead @ localeToday env @ optionsHtmlCount @ showNat (length ns) @ optionsHtmlMid
     @ concat (map (optionsHtmlEntry h) ns) @ optionsHtmlTail"

text \<open>
  \<^verbatim>\<open>exportAllNotes\<close> of the options page (options.js). \<open>format\<close> is the export format of
  the page's own settings object, \<open>None\<close> when it has none; \<open>read_ok\<close> says whether
  \<^verbatim>\<open>chrome.storage.local.get\<close> resolves.
\<close>

definition optionsExportContent ::
  "host \<Rightarrow> export_env \<Rightarrow> string option \<Rightarrow> Note list \<Rightarrow> string \<times> string" where
  "optionsExportContent h env format ns =
     (if format = Some ''json'' then (JSON_stringify (JArray (map noteToJson ns)), ''.json'')
      else if format = Some ''txt'' then (concat (map (txtEntry h) ns), ''.txt'')
      else if format = Some ''md'' then
        (concat (map (\<lambda>n. mdEntry (optionsFormatDate h (modified n)) n) ns), ''.md'')
      else if format = Some ''html'' then (generateHtmlExport h env ns, ''.html'')
      else ([], []))"

definition optionsExportAllNotes ::
  "host \<Rightarrow> export_env \<Rightarrow> string option \<Rightarrow> bool \<Rightarrow> state \<Rightarrow> state" where
  "optionsExportAllNotes h env format read_ok s =
     (let s1 = emit StorageGet s
      in if read_ok then
           (let ns = (case storage s1 of None \<Rightarrow> [] | Some xs \<Rightarrow> xs)
            in if length ns = 0 then showSaveStatus ''No notes to export'' ''error'' s1
               else
                 (let filename = ''notemaster_export_''
                                   @ takeWhile (\<lambda>c. c \<noteq> CHR ''T'') (isoNow env);
                      (fileContent, extension) = optionsExportContent h env format ns
                  in showSaveStatus
                       (''Exported '' @ showNat (length ns) @ '' notes successfully!'') ''success''
                       (downloadFile fileContent (filename @ extension) s1)))
         else showSaveStatus ''Error exporting notes'' ''error''
                (emit (ConsoleError ''Export error:'') s1))"

section \<open>Reading an export back\<close>

text \<open>
  Modelled from the spec: the repository has no import and no parser, so ``parsing it
  back'' is modelled as what \<^verbatim>\<open>JSON.parse\<close> does on texts made of strings, arrays and
  objects, followed by reading each object of the array as a note, field by field.
  White space between tokens is skipped; a string ends at the first unescaped quotation
  mark, may not hold a code unit below 32, and may hold the escapes \<^verbatim>\<open>\" \\ \/ \b \f \n \r
  \t\<close> and \<^verbatim>\<open>\uXXXX\<close> (here for code units below 256). The first argument of the three
  parsing functions bounds the nesting of calls; \<open>JSON_parse\<close> starts with the length of
  the text, which no text can use up.
\<close>

definition json_ws :: "char \<Rightarrow> bool" where
  "json_ws c = (of_char c \<in> {32, 9, 10, 13 :: nat})"

definition skipWs :: "string \<Rightarrow> string" where
  "skipWs cs = dropWhile json_ws cs"

definition hexValue :: "char \<Rightarrow> nat option" where
  "hexValue c =
     (let n = (of_char c :: nat)
      in if 48 \<le> n \<and> n \<le> 57 then Some (n - 48)
         else if 97 \<le> n \<and> n \<le> 102 then Some (n - 87)
         else if 65 \<le> n \<and> n \<le> 70 then Some (n - 55)
         else None)"

definition unescape :: "char \<Rightarrow> char option" where
  "unescape e =
     (if e = CHR 0x22 \<or> e = CHR 0x5C \<or> e = CHR ''/'' then Some e
      else if e = CHR ''b'' then Some (CHR 0x08)
      else if e = CHR ''f'' then Some (CHR 0x0C)
      else if e = CHR ''n'' then Some (CHR 0x0A)
      else if e = CHR ''r'' then Some (CHR 0x0D)
      else if e = CHR ''t'' then Some (CHR 0x09)
      else None)"

fun parseChars :: "string \<Rightarrow> (string \<times> string) option" where
  "parseChars [] = None"
| "parseChars (c # cs) =
     (if c = CHR 0x22 then Some ([], cs)
      else if c = CHR 0x5C then
        (case cs of
           [] \<Rightarrow> None
         | e # cs' \<Rightarrow>
             if e = CHR ''u'' then
               (case cs' of
                  x3 # x2 # x1 # x0 # cs'' \<Rightarrow>
                    (case (hexValue x3, hexValue x2, hexValue x1, hexValue x0) of
                       (Some h3, Some h2, Some h1, Some h0) \<Rightarrow>
                         if ((h3 * 16 + h2) * 16 + h1) * 16 + h0 < 256
                         then map_option (apfst ((#) (char_of (((h3 * 16 + h2) * 16 + h1) * 16 + h0))))
                                (parseChars cs'')
                         else None
                     | _ \<Rightarrow> None)
                | _ \<Rightarrow> None)
             else
               (case unescape e of
                  None \<Rightarrow> None
                | Some x \<Rightarrow> map_option (apfst ((#) x)) (parseChars cs')))
      else if (of_char c :: nat) < 32 then None
      else map_option (apfst ((#) c)) (parseChars cs))"

fun parseValue :: "nat \<Rightarrow> string \<Rightarrow> (json \<times> string) option"
  and parseElements :: "nat \<Rightarrow> string \<Rightarrow> (json list \<times> string) option"
  and parseMembers :: "nat \<Rightarrow> string \<Rightarrow> ((string \<times> json) list \<times> string) option" where
  "parseValue 0 cs = None"
| "parseValue (Suc n) cs =
     (case skipWs cs of
        [] \<Rightarrow> None
      | c # r \<Rightarrow>
          if c = CHR 0x22 then map_option (apfst JString) (parseChars r)
          else if c = CHR ''['' then
            (case skipWs r of
               [] \<Rightarrow> None
             | c' # r' \<Rightarrow>
                 if c' = CHR '']'' then Some (JArray [], r')
                 else map_option (apfst JArray) (parseElements n (c' # r')))
          else if c = CHR ''{'' then
            (case skipWs r of
               [] \<Rightarrow> None
             | c' # r' \<Rightarrow>
                 if c' = CHR ''}'' then Some (JObject [], r')
                 else map_option (apfst JObject) (parseMembers n (c' # r')))
          else None)"
| "parseElements 0 cs = None"
| "parseElements (Suc n) cs =
     (case parseValue n cs of
        None \<Rightarrow> None
      | Some (v, r) \<Rightarrow>
          (case skipWs r of
             [] \<Rightarrow> None
           | c # r' \<Rightarrow>
               if c = CHR '','' then map_option (apfst ((#) v)) (parseElements n r')
               else if c = CHR '']'' then Some ([v], r')
               else None))"
| "parseMembers 0 cs = None"
| "parseMembers (Suc n) cs =
     (case skipWs cs of
        [] \<Rightarrow> None
      | c # r \<Rightarrow>
          if c = CHR 0x22 then
            (case parseChars r of
               None \<Rightarrow> None
             | Some (k, r1) \<Rightarrow>
                 (case skipWs r1 of
                    [] \<Rightarrow> None
                  | c1 # r2 \<Rightarrow>
                      if c1 = CHR '':'' then
                        (case parseValue n r2 of
                           None \<Rightarrow> None
                         | Some (v, r3) \<Rightarrow>
                             (case skipWs r3 of
                                [] \<Rightarrow> None
                              | c3 # r4 \<Rightarrow>
                                  if c3 = CHR '','' then
                                    map_option (apfst ((#) (k, v))) (parseMembers n r4)
                                  else if c3 = CHR ''}'' then Some ([(k, v)], r4)
                                  else None))
                      else None))
          else None)"

definition JSON_parse :: "string \<Rightarrow> json option" where
  "JSON_parse s =
     (case parseValue (length s) s of
        None \<Rightarrow> None
      | Some (v, r) \<Rightarrow> if skipWs r = [] then Some v else None)"

text \<open>A property of an object that has to be a string, or may be absent.\<close>

definition stringField :: "(string \<times> json) list \<Rightarrow> string \<Rightarrow> string option" where
  "stringField ms k = (case map_of ms k of Some (JString x) \<Rightarrow> Some x | _ \<Rightarrow> None)"

definition asString :: "json \<Rightarrow> string option" where
  "asString v = (case v of JString x \<Rightarrow> Some x | _ \<Rightarrow> None)"

definition optionalField :: "(json \<Rightarrow> 'a option) \<Rightarrow> (string \<times> json) list \<Rightarrow> string \<Rightarrow> 'a option option" where
  "optionalField read ms k =
     (case map_of ms k of
        None \<Rightarrow> Some None
      | Some v \<Rightarrow> (case read v of None \<Rightarrow> None | Some x \<Rightarrow> Some (Some x)))"

definition asStrings :: "json \<Rightarrow> string list option" where
  "asStrings v = (case v of JArray vs \<Rightarrow> those (map asString vs) | _ \<Rightarrow> None)"

definition jsonToNote :: "json \<Rightarrow> Note option" where
  "jsonToNote v =
     (case v of
        JObject ms \<Rightarrow>
          (case stringField ms ''id'' of None \<Rightarrow> None | Some i \<Rightarrow>
          (case stringField ms ''title'' of None \<Rightarrow> None | Some t \<Rightarrow>
          (case stringField ms ''content'' of None \<Rightarrow> None | Some c \<Rightarrow>
          (case optionalField asStrings ms ''tags'' of None \<Rightarrow> None | Some ts \<Rightarrow>
          (case optionalField asString ms ''category'' of None \<Rightarrow> None | Some cat \<Rightarrow>
          (case stringField ms ''created'' of None \<Rightarrow> None | Some cr \<Rightarrow>
          (case stringField ms ''modified'' of None \<Rightarrow> None | Some mo \<Rightarrow>
             Some \<lparr>note_id = i, title = t, content = c, tags = ts, category = cat,
                   created = cr, modified = mo\<rparr>)))))))
      | _ \<Rightarrow> None)"

definition parseNotes :: "string \<Rightarrow> Note list option" where
  "parseNotes s =
     (case JSON_parse s of
        Some (JArray vs) \<Rightarrow> those (map jsonToNote vs)
      | _ \<Rightarrow> None)"

text \<open>Indentation: a text of white space only.\<close>

definition wsOnly :: "string \<Rightarrow> bool" where
  "wsOnly ws = (\<forall>c\<in>set ws. json_ws c)"

text \<open>Nesting of calls that parsing a value takes.\<close>

fun need :: "json \<Rightarrow> nat"
  and needElements :: "json list \<Rightarrow> nat"
  and needMembers :: "(string \<times> json) list \<Rightarrow> nat" where
  "need (JString s) = 1"
| "need (JArray vs) = Suc (needElements vs)"
| "need (JObject ms) = Suc (needMembers ms)"
| "needElements [] = 0"
| "needElements (v # vs) = Suc (need v + needElements vs)"
| "needMembers [] = 0"
| "needMembers ((k, v) # ms) = Suc (need v + needMembers ms)"

section \<open>Timestamps\<close>


text \<open>
  A date reader for the examples: it reads the one format that \<^verbatim>\<open>toISOString\<close> writes,
  \<^verbatim>\<open>YYYY-MM-DDTHH:mm:ss.sssZ\<close>, as milliseconds since 1970-01-01T00:00:00.000Z, and
  takes every other string for an invalid date.
\<close>

fun digitsValue :: "nat \<Rightarrow> string \<Rightarrow> nat option" where
  "digitsValue acc [] = Some acc"
| "digitsValue acc (c # cs) =
     (if 48 \<le> (of_char c :: nat) \<and> (of_char c :: nat) \<le> 57
      then digitsValue (10 * acc + (of_char c - 48)) cs else None)"

definition daysFromCivil :: "int \<Rightarrow> int \<Rightarrow> int \<Rightarrow> int" where
  "daysFromCivil y m d =
     (let y' = (if m \<le> 2 then y - 1 else y);
          era = y' div 400;
          yoe = y' - era * 400;
          doy = (153 * (if 2 < m then m - 3 else m + 9) + 2) div 5 + d - 1;
          doe = yoe * 365 + yoe div 4 - yoe div 100 + doy
      in era * 146097 + doe - 719468)"

definition isoTime :: "string \<Rightarrow> int option" where
  "isoTime s =
     (if length s = 24 \<and> s ! 4 = CHR ''-'' \<and> s ! 7 = CHR ''-'' \<and> s ! 10 = CHR ''T''
         \<and> s ! 13 = CHR '':'' \<and> s ! 16 = CHR '':'' \<and> s ! 19 = CHR ''.'' \<and> s ! 23 = CHR ''Z''
      then
        (case (digitsValue 0 (take 4 s), digitsValue 0 (take 2 (drop 5 s)),
               digitsValue 0 (take 2 (drop 8 s)), digitsValue 0 (take 2 (drop 11 s)),
               digitsValue 0 (take 2 (drop 14 s)), digitsValue 0 (take 2 (drop 17 s)),
               digitsValue 0 (take 3 (drop 20 s))) of
           (Some y, Some mo, Some d, Some h, Some mi, Some sec, Some ms) \<Rightarrow>
             if 1 \<le> mo \<and> mo \<le> 12 \<and> 1 \<le> d \<and> d \<le> 31 \<and> h < 24 \<and> mi < 60 \<and> sec < 60
             then Some ((((daysFromCivil (int y) (int mo) (int d) * 24 + int h) * 60 + int mi) * 60
                          + int sec) * 1000 + int ms)
             else None
         | _ \<Rightarrow> None)
      else None)"

text \<open>
  A host for the examples: the date reader above, the date part of the ISO string as
  the local date, the text between tags as the text of a markup without character
  references, and the serialisation of a text node, which writes \<open>&\<close>, \<open><\<close>, \<open>>\<close> and the
  no-break space as character references.
\<close>

fun textBetweenTags :: "bool \<Rightarrow> string \<Rightarrow> string" where
  "textBetweenTags inTag [] = []"
| "textBetweenTags inTag (c # cs) =
     (if inTag then textBetweenTags (c \<noteq> CHR ''>'') cs
      else if c = CHR ''<'' then textBetweenTags True cs
      else c # textBetweenTags False cs)"

definition escapeTextChar :: "char \<Rightarrow> string" where
  "escapeTextChar c =
     (if c = CHR ''&'' then ''&amp;''
      else if c = CHR ''<'' then ''&lt;''
      else if c = CHR ''>'' then ''&gt;''
      else if c = CHR 0xA0 then ''&nbsp;''
      else [c])"

definition example_host :: host where
  "example_host =
     \<lparr>getTime = isoTime, toLocaleDateString = take 10,
      domText = textBetweenTags False, domMarkup = (\<lambda>t. concat (map escapeTextChar t))\<rparr>"

section \<open>Example inputs\<close>

definition blankNote :: Note where
  "blankNote = \<lparr>note_id = [], title = [], content = [], tags = None, category = None,
                 created = [], modified = []\<rparr>"

definition groceries :: Note where
  "groceries = \<lparr>note_id = ''n1'', title = ''Groceries'', content = ''<p>Milk</p>'',
                 tags = None, category = None,
                 created = ''2024-05-01T10:00:00.000Z'', modified = ''2024-05-02T08:30:00.000Z''\<rparr>"

definition clip :: Note where
  "clip = \<lparr>note_id = ''n2'', title = ''Selection from Docs'', content = ''<p>HOL is total</p>'',
            tags = Some [''web-clip''], category = Some ''web'',
            created = ''2024-05-03T09:00:00.000Z'', modified = ''2024-05-03T09:00:00.000Z''\<rparr>"

definition draft :: Note where
  "draft = \<lparr>note_id = ''n3'', title = [], content = [], tags = None, category = None,
             created = ''2024-05-04T12:00:00.000Z'', modified = ''2024-05-04T12:00:00.000Z''\<rparr>"

text \<open>
  A popup that holds two stored notes and has a new, still empty note open in the
  editor; \<open>typed t c\<close> is the same popup after the user typed \<open>t\<close> and \<open>c\<close>.
\<close>

definition popup_new :: state where
  "popup_new =
     \<lparr>heap = (\<lambda>_. blankNote)(0 := groceries, 1 := clip, 2 := draft),
      next_ref = 3, notes = [0, 1], currentNote = Some 2, isEditing = True,
      exportFormat = Some ''json'', noteTitle = Some [], noteEditor = Some [],
      modalVisible = True, rendered = [groceries, clip],
      storage = Some [groceries, clip], events = []\<rparr>"

definition typed :: "string \<Rightarrow> string \<Rightarrow> state \<Rightarrow> state" where
  "typed t c s = s\<lparr>noteTitle := Some t, noteEditor := Some c\<rparr>"

text \<open>The same popup with the stored note \<open>clip\<close> open in the editor.\<close>

definition popup_edit :: state where
  "popup_edit = popup_new\<lparr>currentNote := Some 1,
                           noteTitle := Some (title clip), noteEditor := Some (content clip)\<rparr>"

definition turn_ok :: turn where
  "turn_ok = \<lparr>now = ''2024-06-01T07:00:00.000Z'', write_ok = True, resave = False\<rparr>"

definition turn_failing :: turn where
  "turn_failing = \<lparr>now = ''2024-06-01T07:00:00.000Z'', write_ok = False, resave = False\<rparr>"

text \<open>The backend holds three notes, the oldest first; nothing is loaded yet.\<close>

definition popup_start :: state where
  "popup_start =
     \<lparr>heap = (\<lambda>_. blankNote), next_ref = 0, notes = [], currentNote = None, isEditing = False,
      exportFormat = None, noteTitle = Some [], noteEditor = Some [],
      modalVisible = False, rendered = [],
      storage = Some [groceries, draft, clip], events = []\<rparr>"

text \<open>Clock readings: two in the same millisecond, two a millisecond apart.\<close>

definition made_at_once :: creation where
  "made_at_once = \<lparr>generatedId = ''n4'', createdAt = ''2024-06-01T07:00:00.000Z'',
                    modifiedAt = ''2024-06-01T07:00:00.000Z''\<rparr>"



text \<open>A popup and a backend without notes, and the environment of an export.\<close>

definition popup_empty :: state where
  "popup_empty = popup_start\<lparr>storage := Some []\<rparr>"

definition export_today :: export_env where
  "export_today = \<lparr>isoNow = ''2024-06-01T07:00:00.000Z'', localeToday = ''2024-06-01'',
                    msNow = 1717225200000\<rparr>"

text \<open>The note of the conversion example.\<close>

definition hello :: Note where
  "hello = \<lparr>note_id = ''n5'', title = ''Greeting'',
             content = ''<p>Hello <strong>world</strong></p>'', tags = None, category = None,
             created = ''2024-06-01T06:00:00.000Z'', modified = ''2024-06-01T06:30:00.000Z''\<rparr>"

section \<open>Properties\<close>

subsection \<open>Auxiliary facts\<close>

lemma js_includes_sublist: "js_includes s t = sublist t s"
  by (induction s) (auto simp: sublist_Cons_right)

lemma lower_char_whitespace: "js_whitespace (lower_char c) = js_whitespace c"
  by (auto simp: lower_char_def js_whitespace_def Let_def)

lemma all_dropWhile: "(\<forall>x\<in>set (dropWhile P xs). P x) \<longleftrightarrow> (\<forall>x\<in>set xs. P x)"
  by (induction xs) auto

lemma trim_Nil_iff: "trim s = [] \<longleftrightarrow> (\<forall>c\<in>set s. js_whitespace c)"
  by (simp add: trim_def all_dropWhile)

lemma trim_lower_Nil_iff: "trim (toLowerCase q) = [] \<longleftrightarrow> (\<forall>c\<in>set q. js_whitespace c)"
  by (simp add: trim_Nil_iff toLowerCase_def lower_char_whitespace)

lemma findIndex_None: "findIndex P xs = None \<longleftrightarrow> (\<forall>x\<in>set xs. \<not> P x)"
  by (induction xs) auto

lemma findIndex_Some:
  "findIndex P xs = Some i \<Longrightarrow> i < length xs \<and> P (xs ! i) \<and> (\<forall>j<i. \<not> P (xs ! j))"
proof (induction xs arbitrary: i)
  case Nil
  then show ?case by simp
next
  case (Cons x xs)
  show ?case
  proof (cases "P x")
    case True
    with Cons.prems show ?thesis by simp
  next
    case False
    with Cons.prems obtain k where k: "findIndex P xs = Some k" "i = Suc k"
      by auto
    from Cons.IH[OF k(1)] False k(2) show ?thesis
      by (auto simp: less_Suc_eq_0_disj)
  qed
qed

lemma findIndex_find: "findIndex P xs = Some i \<Longrightarrow> find P xs = Some (xs ! i)"
  by (induction xs arbitrary: i) (auto split: if_splits)

lemma findIndex_map: "findIndex P (map f xs) = findIndex (\<lambda>x. P (f x)) xs"
  by (induction xs) auto

lemma findIndex_cong:
  "(\<And>x. x \<in> set xs \<Longrightarrow> P x = Q x) \<Longrightarrow> findIndex P xs = findIndex Q xs"
  by (induction xs) auto

lemma map_upd_notin: "r \<notin> set xs \<Longrightarrow> map (h(r := v)) xs = map h xs"
  by (induction xs) auto

lemma map_upd_at:
  assumes "i < length xs" and "\<forall>j<length xs. xs ! j = r \<longrightarrow> j = i"
  shows "map (h(r := v)) (xs[i := r]) = (map h xs)[i := v]"
  using assms by (auto simp: list_eq_iff_nth_eq nth_list_update)

lemma note_id_updateNote [simp]: "note_id (updateNote t c time n) = note_id n"
  by (simp add: updateNote_def)

lemma upsertCurrent_alt:
  "upsertCurrent t c time r s =
     (case findIndex (\<lambda>a. note_id (heap s a) = note_id (heap s r)) (notes s) of
        None \<Rightarrow> s\<lparr>heap := (heap s)(r := updateNote t c time (heap s r)), notes := r # notes s\<rparr>
      | Some i \<Rightarrow> s\<lparr>heap := (heap s)(r := updateNote t c time (heap s r)),
                    notes := (notes s)[i := r]\<rparr>)"
proof -
  let ?h = "(heap s)(r := updateNote t c time (heap s r))"
  have "findIndex (\<lambda>a. note_id (?h a) = note_id (?h r)) (notes s)
          = findIndex (\<lambda>a. note_id (heap s a) = note_id (heap s r)) (notes s)"
    by (rule findIndex_cong) simp
  then show ?thesis
    by (simp add: upsertCurrent_def Let_def del: fun_upd_apply cong: option.case_cong)
qed

text \<open>
  On the in-memory collection, the mutation through the reference followed by
  \<^verbatim>\<open>unshift\<close> or the indexed store is an insertion at the front or a replacement of one
  element.
\<close>

lemma collection_upsertCurrent:
  assumes placed: "currentPlaced s" and cur: "currentNote s = Some r"
  shows "collection (upsertCurrent t c time r s) =
           (case findIndex (\<lambda>m. note_id m = note_id (heap s r)) (collection s) of
              None \<Rightarrow> updateNote t c time (heap s r) # collection s
            | Some i \<Rightarrow> (collection s)[i := updateNote t c time (heap s r)])"
proof -
  let ?P = "\<lambda>a. note_id (heap s a) = note_id (heap s r)"
  have ix: "findIndex (\<lambda>m. note_id m = note_id (heap s r)) (collection s) = findIndex ?P (notes s)"
    by (simp add: collection_def findIndex_map)
  show ?thesis
  proof (cases "findIndex ?P (notes s)")
    case None
    then have "r \<notin> set (notes s)"
      by (auto simp: findIndex_None)
    with None show ?thesis
      unfolding ix by (simp add: upsertCurrent_alt collection_def map_upd_notin)
  next
    case (Some i)
    note fi = findIndex_Some[OF Some]
    have uniq: "\<forall>j<length (notes s). notes s ! j = r \<longrightarrow> j = i"
    proof (intro allI impI)
      fix j assume j: "j < length (notes s)" "notes s ! j = r"
      then have "r \<in> set (notes s)" by (auto simp: in_set_conv_nth)
      with placed cur have "find ?P (notes s) = Some r"
        by (simp add: currentPlaced_def)
      with findIndex_find[OF Some] have "notes s ! i = r" by simp
      moreover from placed have "distinct (notes s)" by (simp add: currentPlaced_def)
      ultimately show "j = i"
        using j fi by (auto simp: nth_eq_iff_index_eq)
    qed
    from fi have "i < length (notes s)" by simp
    from map_upd_at[OF this uniq] Some show ?thesis
      unfolding ix by (simp add: upsertCurrent_alt collection_def)
  qed
qed

lemmas state_ops = saveNotes_def renderNotes_def showSaveStatus_def emit_def hideModal_def

lemma collection_frame [simp]:
  "collection (emit ev s) = collection s"
  "collection (renderNotes ns s) = collection s"
  "collection (showSaveStatus m ty s) = collection s"
  "collection (hideModal s) = collection s"
  "collection (saveNotes ok s) = collection s"
  by (simp_all add: collection_def state_ops Let_def)

lemma storage_frame [simp]:
  "storage (emit ev s) = storage s"
  "storage (renderNotes ns s) = storage s"
  "storage (showSaveStatus m ty s) = storage s"
  "storage (hideModal s) = storage s"
  "storage (saveNotes ok s) = (if ok then Some (collection s) else storage s)"
  by (simp_all add: collection_def state_ops Let_def)

lemma storage_upsertCurrent [simp]: "storage (upsertCurrent t c time r s) = storage s"
  by (simp add: upsertCurrent_def Let_def split: option.split)

lemma events_frame [simp]:
  "events (emit ev s) = events s @ [ev]"
  "events (renderNotes ns s) = events s"
  "events (showSaveStatus m ty s) = events s @ [SaveStatus m ty]"
  "events (hideModal s) = events s"
  "events (saveNotes ok s) =
     events s @ (if ok then [StorageSet] else [StorageSet, ConsoleError ''Error saving notes:''])"
  by (simp_all add: state_ops Let_def)

lemma closeNoteModal_declined:
  "\<exists>s'. closeNoteModal False ts s = Some s' \<and> collection s' = collection s
         \<and> storage s' = storage s \<and> set (events s) \<subseteq> set (events s')"
  by (auto simp: closeNoteModal.simps Let_def)

text \<open>One pass of \<^verbatim>\<open>saveCurrentNote\<close> on a note that is not empty.\<close>

lemma saveCurrentNote_pass:
  assumes "currentNote s = Some r"
    and "noteTitle s = Some titleValue" and "noteEditor s = Some editorHtml"
    and "trim titleValue \<noteq> [] \<or> trim editorHtml \<noteq> []"
  shows "saveCurrentNote showFeedback (e # ts) s =
           (let s1 = upsertCurrent (trim titleValue) (trim editorHtml) (now e) r s;
                s2 = saveNotes (write_ok e) s1;
                s3 = renderNotes (collection s2) s2
            in if showFeedback
               then closeNoteModal (resave e) ts
                      (showSaveStatus ''Note saved successfully!'' ''success'' s3)
               else Some s3)"
  using assms by (auto simp: saveCurrentNote.simps Let_def)

subsection \<open>Rejecting an empty note\<close>

text \<open>
  C1. A save with feedback of a note whose title and content are both empty after
  trimming is rejected: the result is the state it started from, with the heap, the
  array of references, the in-memory collection and the stored collection as they
  were, and one more event, the alert that asks for a title or content. No turn of the
  environment is used, so nothing is written.
\<close>

theorem saveCurrentNote_rejects_empty:
  assumes "currentNote s = Some r"
    and "noteTitle s = Some titleValue" and "noteEditor s = Some editorHtml"
    and "trim titleValue = []" and "trim editorHtml = []"
  shows "\<exists>s'. saveCurrentNote True ts s = Some s'
           \<and> s' = s\<lparr>events := events s @ [Alert ''Please add a title or content to save the note.'']\<rparr>
           \<and> heap s' = heap s \<and> notes s' = notes s
           \<and> collection s' = collection s \<and> storage s' = storage s"
  using assms by (simp add: saveCurrentNote.simps emit_def collection_def)

theorem saveCurrentNote_rejects_empty_witness:
  "saveCurrentNote True [] (typed ''  '' [CHR 0x09, CHR 0x0A] popup_new) =
     Some ((typed ''  '' [CHR 0x09, CHR 0x0A] popup_new)
             \<lparr>events := [Alert ''Please add a title or content to save the note.'']\<rparr>)
   \<and> collection (typed ''  '' [CHR 0x09, CHR 0x0A] popup_new) = [groceries, clip]"
  using saveCurrentNote_rejects_empty
          [of "typed ''  '' [CHR 0x09, CHR 0x0A] popup_new" 2 "''  ''" "[CHR 0x09, CHR 0x0A]" "[]"]
  by (simp add: typed_def popup_new_def collection_def trim_def js_whitespace_def)

subsection \<open>Saving a note that is not empty\<close>

text \<open>
  C2. A save of a note whose trimmed title or trimmed content is not empty returns, and
  the note \<open>n'\<close> it saves is the current note with the trimmed title (or
  \<open>Untitled Note\<close> when that is empty), the trimmed content and the clock reading as
  \<open>modified\<close>. If no note of the collection has its id, the collection becomes \<open>n'\<close>
  followed by the old collection; otherwise \<open>n'\<close> replaces the first note with that id
  and every other position is as before. The whole collection is then what the backend
  stores, provided the backend accepts the write. The statement is about one pass: a
  save with feedback after which the user does not ask \<^verbatim>\<open>closeNoteModal\<close> to save again.
\<close>

theorem saveCurrentNote_upserts:
  assumes cur: "currentNote s = Some r"
    and inputs: "noteTitle s = Some titleValue" "noteEditor s = Some editorHtml"
    and nonempty: "trim titleValue \<noteq> [] \<or> trim editorHtml \<noteq> []"
    and placed: "currentPlaced s"
    and once: "showFeedback \<longrightarrow> \<not> resave e"
  shows "\<exists>s' n'. saveCurrentNote showFeedback (e # ts) s = Some s'
           \<and> n' = (heap s r)\<lparr>title := (if trim titleValue = [] then ''Untitled Note''
                                         else trim titleValue),
                               content := trim editorHtml, modified := now e\<rparr>
           \<and> collection s' =
               (case findIndex (\<lambda>m. note_id m = note_id n') (collection s) of
                  None \<Rightarrow> n' # collection s
                | Some i \<Rightarrow> (collection s)[i := n'])
           \<and> storage s' = (if write_ok e then Some (collection s') else storage s)"
proof -
  let ?s1 = "upsertCurrent (trim titleValue) (trim editorHtml) (now e) r s"
  let ?s3 = "renderNotes (collection (saveNotes (write_ok e) ?s1)) (saveNotes (write_ok e) ?s1)"
  let ?s4 = "showSaveStatus ''Note saved successfully!'' ''success'' ?s3"
  note run = saveCurrentNote_pass[OF cur inputs nonempty, of showFeedback e ts]
  have col: "collection ?s1 =
               (case findIndex (\<lambda>m. note_id m = note_id (heap s r)) (collection s) of
                  None \<Rightarrow> updateNote (trim titleValue) (trim editorHtml) (now e) (heap s r) # collection s
                | Some i \<Rightarrow> (collection s)
                             [i := updateNote (trim titleValue) (trim editorHtml) (now e) (heap s r)])"
    by (rule collection_upsertCurrent[OF placed cur])
  have "\<exists>s'. saveCurrentNote showFeedback (e # ts) s = Some s'
          \<and> collection s' = collection ?s1
          \<and> storage s' = (if write_ok e then Some (collection ?s1) else storage s)"
  proof (cases showFeedback)
    case False
    with run show ?thesis by (simp add: Let_def)
  next
    case True
    with once have no: "resave e = False" by simp
    from closeNoteModal_declined[of ts ?s4] True no run show ?thesis
      by (auto simp: Let_def)
  qed
  then obtain s' where s': "saveCurrentNote showFeedback (e # ts) s = Some s'"
    "collection s' = collection ?s1"
    "storage s' = (if write_ok e then Some (collection ?s1) else storage s)"
    by blast
  let ?n = "updateNote (trim titleValue) (trim editorHtml) (now e) (heap s r)"
  have "?n = (heap s r)\<lparr>title := (if trim titleValue = [] then ''Untitled Note''
                                     else trim titleValue),
                           content := trim editorHtml, modified := now e\<rparr>"
    by (simp add: updateNote_def)
  moreover have "note_id ?n = note_id (heap s r)"
    by simp
  ultimately show ?thesis
    using s' col by (intro exI[of _ s'] exI[of _ ?n]) simp
qed

theorem saveCurrentNote_upserts_witness:
  "(\<exists>s'. saveCurrentNote True [turn_ok] (typed '' Milk '' ''<p>2l</p>'' popup_new) = Some s'
      \<and> collection s' = [draft\<lparr>title := ''Milk'', content := ''<p>2l</p>'',
                                 modified := ''2024-06-01T07:00:00.000Z''\<rparr>, groceries, clip]
      \<and> storage s' = Some (collection s'))
   \<and> (\<exists>s'. saveCurrentNote False [turn_failing] (typed [] ''<p>HOL</p>'' popup_edit) = Some s'
      \<and> collection s' = [groceries, clip\<lparr>title := ''Untitled Note'', content := ''<p>HOL</p>'',
                                            modified := ''2024-06-01T07:00:00.000Z''\<rparr>]
      \<and> storage s' = Some [groceries, clip])"
  using saveCurrentNote_upserts
          [of "typed '' Milk '' ''<p>2l</p>'' popup_new" 2 "'' Milk ''" "''<p>2l</p>''" True turn_ok "[]"]
        saveCurrentNote_upserts
          [of "typed [] ''<p>HOL</p>'' popup_edit" 1 "[]" "''<p>HOL</p>''" False turn_failing "[]"]
  by (simp add: typed_def popup_new_def popup_edit_def turn_ok_def turn_failing_def
        currentPlaced_def collection_def trim_def js_whitespace_def
        groceries_def clip_def draft_def)

subsection \<open>Searching\<close>

text \<open>
  C3. The list that \<^verbatim>\<open>searchNotes\<close> renders is the whole in-memory collection when every
  code unit of the query is white space (the empty query included). Otherwise it holds,
  in their order, exactly the notes for which the lowercased and then trimmed query is
  a contiguous part of the lowercased title or of the lowercased content taken as it
  is stored, markup included. Nothing but the rendered list changes: there is no
  backend call and the stored collection is as before.
\<close>

theorem searchNotes_result:
  "rendered (searchNotes query s) =
     (if \<forall>c\<in>set query. js_whitespace c then collection s
      else filter (\<lambda>n. sublist (trim (toLowerCase query)) (toLowerCase (title n))
                     \<or> sublist (trim (toLowerCase query)) (toLowerCase (content n)))
             (collection s))
   \<and> (searchNotes query s)\<lparr>rendered := rendered s\<rparr> = s
   \<and> storage (searchNotes query s) = storage s
   \<and> events (searchNotes query s) = events s"
  by (simp add: searchNotes_def Let_def renderNotes_def matchesTerm_def js_includes_sublist
        trim_lower_Nil_iff del: all_simps cong: filter_cong)

theorem searchNotes_result_witness:
  "rendered (searchNotes '' MILK '' popup_new) = [groceries]
   \<and> rendered (searchNotes ''<P>'' popup_new) = [groceries, clip]
   \<and> rendered (searchNotes [CHR 0x20, CHR 0x09] (renderNotes [] popup_new)) = [groceries, clip]
   \<and> storage (searchNotes '' MILK '' popup_new) = Some [groceries, clip]"
  using searchNotes_result [of "'' MILK ''" popup_new]
        searchNotes_result [of "''<P>''" popup_new]
        searchNotes_result [of "[CHR 0x20, CHR 0x09]" "renderNotes [] popup_new"]
  by (simp add: popup_new_def collection_def trim_def toLowerCase_def lower_char_def
        js_whitespace_def groceries_def clip_def renderNotes_def char_of_eq_iff
        flip: js_includes_sublist)

subsection \<open>Deleting\<close>

lemma filter_unique_id:
  assumes "distinct (map f xs)" and "x \<in> set xs"
  shows "\<exists>ys zs. xs = ys @ x # zs \<and> filter (\<lambda>y. f y \<noteq> f x) xs = ys @ zs"
proof -
  from assms(2) obtain ys zs where xs: "xs = ys @ x # zs"
    by (auto simp: in_set_conv_decomp)
  with assms(1) have "f x \<notin> f ` set ys" "f x \<notin> f ` set zs"
    by simp_all
  then have "\<forall>y\<in>set ys \<union> set zs. f y \<noteq> f x"
    by (metis Un_iff imageI)
  then have "filter (\<lambda>y. f y \<noteq> f x) xs = ys @ zs"
    by (simp add: xs filter_id_conv)
  with xs show ?thesis by blast
qed

lemma collection_deleteNote:
  "collection (deleteNote noteId answer ok s) =
     (if answer then filter (\<lambda>n. note_id n \<noteq> noteId) (collection s) else collection s)"
  by (simp add: deleteNote_def Let_def collection_def state_ops filter_map comp_def)

lemma storage_deleteNote:
  "storage (deleteNote noteId answer ok s) =
     (if answer \<and> ok then Some (filter (\<lambda>n. note_id n \<noteq> noteId) (collection s)) else storage s)"
  by (simp add: deleteNote_def Let_def collection_def state_ops filter_map comp_def)

lemma events_deleteNote:
  "events (deleteNote noteId answer ok s) =
     events s @ Confirm ''Are you sure you want to delete this note?'' #
       (if answer
        then (if ok then [StorageSet] else [StorageSet, ConsoleError ''Error saving notes:''])
             @ [SaveStatus ''Note deleted'' ''success'']
        else [])"
  by (simp add: deleteNote_def Let_def state_ops)

text \<open>
  C8. Once the user has confirmed the prompt, \<^verbatim>\<open>deleteNote\<close> leaves in the collection
  exactly the notes whose id differs from the given one, in their order. With unique
  ids and a note of that id present, this is the collection with that one note taken
  out; with no note of that id, it is the collection as it was, and the only events
  are the prompt, the write and the status message, no error among them. In both cases
  the stored collection is the resulting collection when the backend accepts the
  write. A declined prompt changes neither collection.
\<close>

theorem deleteNote_removes:
  "collection (deleteNote noteId True ok s) = filter (\<lambda>n. note_id n \<noteq> noteId) (collection s)
   \<and> (\<forall>n. distinct (map note_id (collection s)) \<and> n \<in> set (collection s) \<and> note_id n = noteId \<longrightarrow>
        (\<exists>before after. collection s = before @ n # after
           \<and> collection (deleteNote noteId True ok s) = before @ after))
   \<and> (noteId \<notin> note_id ` set (collection s) \<longrightarrow>
        collection (deleteNote noteId True ok s) = collection s
        \<and> events (deleteNote noteId True True s) =
            events s @ [Confirm ''Are you sure you want to delete this note?'', StorageSet,
                        SaveStatus ''Note deleted'' ''success''])
   \<and> storage (deleteNote noteId True ok s) =
       (if ok then Some (collection (deleteNote noteId True ok s)) else storage s)
   \<and> collection (deleteNote noteId False ok s) = collection s
   \<and> storage (deleteNote noteId False ok s) = storage s"
proof -
  have "\<exists>before after. collection s = before @ n # after
          \<and> collection (deleteNote noteId True ok s) = before @ after"
    if "distinct (map note_id (collection s))" "n \<in> set (collection s)" "note_id n = noteId" for n
    using filter_unique_id[OF that(1,2)] that(3) by (simp add: collection_deleteNote)
  moreover have "collection (deleteNote noteId True ok s) = collection s"
    if "noteId \<notin> note_id ` set (collection s)"
    using that by (auto simp: collection_deleteNote filter_id_conv)
  ultimately show ?thesis
    by (simp add: collection_deleteNote storage_deleteNote events_deleteNote)
qed

theorem deleteNote_removes_witness:
  "collection (deleteNote ''n1'' True True popup_new) = [clip]
   \<and> storage (deleteNote ''n1'' True True popup_new) = Some [clip]
   \<and> collection (deleteNote ''n9'' True True popup_new) = [groceries, clip]
   \<and> storage (deleteNote ''n9'' True True popup_new) = Some [groceries, clip]
   \<and> events (deleteNote ''n9'' True True popup_new) =
       [Confirm ''Are you sure you want to delete this note?'', StorageSet,
        SaveStatus ''Note deleted'' ''success'']"
  using deleteNote_removes [of "''n1''" True popup_new]
        deleteNote_removes [of "''n9''" True popup_new]
  by (simp add: popup_new_def collection_def groceries_def clip_def)

subsection \<open>A write that the backend rejects\<close>




subsection \<open>Loading\<close>

lemma mset_insertBy [simp]: "mset (insertBy cmp x xs) = add_mset x (mset xs)"
  by (induction xs) auto

lemma js_sort_Nil [simp]: "js_sort cmp [] = []"
  by (simp add: js_sort_def)

lemma mset_js_sort [simp]: "mset (js_sort cmp xs) = mset xs"
  by (induction xs) (auto simp: js_sort_def)

lemma set_js_sort [simp]: "set (js_sort cmp xs) = set xs"
  using mset_js_sort[of cmp xs] by (metis set_mset_mset)

lemma insertBy_map:
  "map f (insertBy (\<lambda>a b. cmp (f a) (f b)) x xs) = insertBy cmp (f x) (map f xs)"
  by (induction xs) auto

lemma js_sort_map:
  "map f (js_sort (\<lambda>a b. cmp (f a) (f b)) xs) = js_sort cmp (map f xs)"
  by (induction xs) (auto simp: js_sort_def insertBy_map)

text \<open>
  When the comparison agrees with an integer key, largest first, on the elements at
  hand, the result is ordered by that key.
\<close>

lemma sorted_insertBy:
  assumes key: "\<And>a b. a \<in> insert x (set xs) \<Longrightarrow> b \<in> insert x (set xs)
                  \<Longrightarrow> (cmp a b \<le> 0) = (k b \<le> (k a :: int))"
    and "sorted_wrt (\<lambda>a b. k b \<le> k a) xs"
  shows "sorted_wrt (\<lambda>a b. k b \<le> k a) (insertBy cmp x xs)"
  using assms
proof (induction xs)
  case Nil
  then show ?case by simp
next
  case (Cons y ys)
  show ?case
  proof (cases "cmp x y \<le> 0")
    case True
    with Cons.prems(1)[of x y] have "k y \<le> k x" by simp
    with Cons.prems(2) True show ?thesis by (auto intro: order_trans)
  next
    case False
    with Cons.prems(1)[of x y] have "k x \<le> k y" by simp
    moreover have "sorted_wrt (\<lambda>a b. k b \<le> k a) (insertBy cmp x ys)"
      using Cons.prems by (intro Cons.IH) auto
    moreover have "set (insertBy cmp x ys) = insert x (set ys)"
      using mset_insertBy[of cmp x ys] by (metis set_mset_add_mset_insert set_mset_mset)
    ultimately show ?thesis
      using False Cons.prems(2) by auto
  qed
qed

lemma sorted_js_sort:
  assumes "\<And>a b. a \<in> set xs \<Longrightarrow> b \<in> set xs \<Longrightarrow> (cmp a b \<le> 0) = (k b \<le> (k a :: int))"
  shows "sorted_wrt (\<lambda>a b. k b \<le> k a) (js_sort cmp xs)"
  using assms
proof (induction xs)
  case Nil
  then show ?case by simp
next
  case (Cons x xs)
  have "sorted_wrt (\<lambda>a b. k b \<le> k a) (js_sort cmp xs)"
    using Cons.prems by (intro Cons.IH) auto
  then have "sorted_wrt (\<lambda>a b. k b \<le> k a) (insertBy cmp x (js_sort cmp xs))"
    using Cons.prems by (intro sorted_insertBy) auto
  then show ?case by (simp add: js_sort_def)
qed

lemma map_nth_range:
  "map (\<lambda>a. if b \<le> a \<and> a < b + length xs then xs ! (a - b) else g a) [b ..< b + length xs] = xs"
  by (rule nth_equalityI) simp_all

text \<open>The loaded collection is the stored one, sorted by the comparison of \<^verbatim>\<open>loadNotes\<close>.\<close>

lemma collection_loadNotes:
  "collection (loadNotes D ok s) =
     (if ok then js_sort (compareModified D) (case storage s of None \<Rightarrow> [] | Some ns \<Rightarrow> ns)
      else [])"
proof (cases ok)
  case False
  then show ?thesis
    by (simp add: loadNotes_def Let_def collection_def emit_def)
next
  case True
  define stored where "stored = (case storage s of None \<Rightarrow> [] | Some ns \<Rightarrow> ns)"
  define h where "h = (\<lambda>a. if next_ref s \<le> a \<and> a < next_ref s + length stored
                            then stored ! (a - next_ref s) else heap s a)"
  have "collection (loadNotes D True s) =
          map h (js_sort (\<lambda>a b. compareModified D (h a) (h b))
                   [next_ref s ..< next_ref s + length stored])"
    by (simp add: loadNotes_def Let_def collection_def emit_def stored_def h_def cong: if_cong)
  also have "\<dots> = js_sort (compareModified D) (map h [next_ref s ..< next_ref s + length stored])"
    by (rule js_sort_map)
  also have "map h [next_ref s ..< next_ref s + length stored] = stored"
    unfolding h_def by (rule map_nth_range)
  finally show ?thesis
    using True by (simp add: stored_def)
qed

text \<open>
  C7. \<^verbatim>\<open>loadNotes\<close> leaves an empty collection when the backend has no \<open>notes\<close> key.
  When the read is rejected it also leaves an empty collection, logs the error and
  returns like any other call. Otherwise, for stored notes whose \<open>modified\<close> fields are
  valid dates, the collection holds the stored notes, each as often as it is stored,
  with the later \<open>modified\<close> first. The stored collection itself is never changed.
\<close>

theorem loadNotes_result:
  "(storage s = None \<longrightarrow> collection (loadNotes D True s) = [])
   \<and> collection (loadNotes D False s) = []
   \<and> events (loadNotes D False s) = events s @ [StorageGet, ConsoleError ''Error loading notes:'']
   \<and> storage (loadNotes D ok s) = storage s
   \<and> (\<forall>ns. storage s = Some ns \<and> (\<forall>n\<in>set ns. D (modified n) \<noteq> None) \<longrightarrow>
         mset (collection (loadNotes D True s)) = mset ns
         \<and> sorted_wrt (\<lambda>a b. \<exists>ta tb. D (modified a) = Some ta \<and> D (modified b) = Some tb \<and> tb \<le> ta)
             (collection (loadNotes D True s)))"
proof -
  have sorted: "sorted_wrt (\<lambda>a b. \<exists>ta tb. D (modified a) = Some ta \<and> D (modified b) = Some tb \<and> tb \<le> ta)
                  (js_sort (compareModified D) ns)"
    if valid: "\<forall>n\<in>set ns. D (modified n) \<noteq> None" for ns
  proof -
    let ?k = "\<lambda>n. the (D (modified n))"
    have "(compareModified D a b \<le> 0) = (?k b \<le> ?k a)" if "a \<in> set ns" "b \<in> set ns" for a b
    proof -
      from valid that have "D (modified a) \<noteq> None" "D (modified b) \<noteq> None"
        by blast+
      then obtain ta tb where "D (modified a) = Some ta" "D (modified b) = Some tb"
        by blast
      then show ?thesis by (simp add: compareModified_def)
    qed
    then have srt: "sorted_wrt (\<lambda>a b. ?k b \<le> ?k a) (js_sort (compareModified D) ns)"
      by (rule sorted_js_sort)
    show ?thesis
    proof (rule sorted_wrt_mono_rel[OF _ srt])
      fix x y
      assume "x \<in> set (js_sort (compareModified D) ns)" "y \<in> set (js_sort (compareModified D) ns)"
        and le: "?k y \<le> ?k x"
      with valid have "D (modified x) \<noteq> None" "D (modified y) \<noteq> None"
        by simp_all
      with le show "\<exists>ta tb. D (modified x) = Some ta \<and> D (modified y) = Some tb \<and> tb \<le> ta"
        by auto
    qed
  qed
  show ?thesis
    using sorted by (simp add: collection_loadNotes) (simp add: loadNotes_def Let_def emit_def)
qed

theorem loadNotes_result_witness:
  "collection (loadNotes isoTime True popup_start) = [draft, clip, groceries]
   \<and> mset (collection (loadNotes isoTime True popup_start)) = mset [groceries, draft, clip]
   \<and> sorted_wrt (\<lambda>a b. \<exists>ta tb. isoTime (modified a) = Some ta \<and> isoTime (modified b) = Some tb
                           \<and> tb \<le> ta)
        (collection (loadNotes isoTime True popup_start))
   \<and> collection (loadNotes isoTime True (popup_start\<lparr>storage := None\<rparr>)) = []
   \<and> collection (loadNotes isoTime False popup_start) = []
   \<and> events (loadNotes isoTime False popup_start) =
       [StorageGet, ConsoleError ''Error loading notes:'']"
proof -
  have valid: "\<forall>n\<in>set [groceries, draft, clip]. isoTime (modified n) \<noteq> None"
    by (simp add: groceries_def draft_def clip_def isoTime_def daysFromCivil_def)
  have stored: "storage popup_start = Some [groceries, draft, clip]"
    by (simp add: popup_start_def)
  have "collection (loadNotes isoTime True popup_start) = [draft, clip, groceries]"
    by (simp add: collection_loadNotes stored js_sort_def compareModified_def
          groceries_def draft_def clip_def isoTime_def daysFromCivil_def)
  with loadNotes_result [of popup_start isoTime True] valid stored
       loadNotes_result [of "popup_start\<lparr>storage := None\<rparr>" isoTime True]
  show ?thesis
    by (simp add: popup_start_def)
qed

subsection \<open>Timestamps of a note\<close>

lemma heap_frame [simp]:
  "heap (emit ev s) = heap s"
  "heap (renderNotes ns s) = heap s"
  "heap (showSaveStatus m ty s) = heap s"
  "heap (hideModal s) = heap s"
  "heap (saveNotes ok s) = heap s"
  by (simp_all add: state_ops Let_def)

lemma heap_upsertCurrent [simp]:
  "heap (upsertCurrent t c time r s) = (heap s)(r := updateNote t c time (heap s r))"
  by (simp add: upsertCurrent_alt split: option.split)





subsection \<open>Conversion to lightweight markup\<close>

lemma set_replaceFrom_deleting:
  assumes deleting: "\<And>t r n. m t = Some (r, n) \<Longrightarrow> r = []"
  shows "set (replaceFrom k m s) \<subseteq> set s"
proof (induction s arbitrary: k rule: length_induct)
  case (1 s)
  show ?case
  proof (cases s)
    case Nil
    then show ?thesis by simp
  next
    case (Cons c cs)
    show ?thesis
    proof (cases k)
      case (Suc k')
      with Cons 1[rule_format, of cs k'] show ?thesis by auto
    next
      case 0
      show ?thesis
      proof (cases "m (c # cs)")
        case None
        with 0 Cons 1[rule_format, of cs 0] show ?thesis by auto
      next
        case (Some a)
        obtain r n where a: "a = (r, n)" by (cases a)
        with Some deleting have "r = []" by simp
        with Some a 0 Cons 1[rule_format, of cs "n - 1"] show ?thesis by auto
      qed
    qed
  qed
qed

lemma anyTag_deletes: "anyTag [] t = Some (r, n) \<Longrightarrow> r = []"
  by (auto simp: anyTag_def split: list.splits if_splits)

lemma anyTag_None: "anyTag [] (CHR ''<'' # cs) = None \<Longrightarrow> CHR ''>'' \<notin> set cs"
  by (auto simp: anyTag_def split: if_splits)

text \<open>
  After the last pass no \<open><\<close> has a \<open>>\<close> anywhere behind it: the text is a part without
  \<open><\<close> followed by a part without \<open>>\<close>.
\<close>

lemma replaceFrom_anyTag_shape:
  "\<exists>pre post. replaceFrom k (anyTag []) s = pre @ post
       \<and> CHR ''<'' \<notin> set pre \<and> CHR ''>'' \<notin> set post"
proof (induction s arbitrary: k rule: length_induct)
  case (1 s)
  show ?case
  proof (cases s)
    case Nil
    then show ?thesis by simp
  next
    case (Cons c cs)
    show ?thesis
    proof (cases k)
      case (Suc k')
      with Cons 1[rule_format, of cs k'] show ?thesis by simp
    next
      case 0
      show ?thesis
      proof (cases "anyTag [] (c # cs)")
        case (Some a)
        obtain r n where a: "a = (r, n)" by (cases a)
        with Some have "r = []" by (simp add: anyTag_deletes)
        with Some a 0 Cons 1[rule_format, of cs "n - 1"] show ?thesis by simp
      next
        case None
        from 1[rule_format, of cs 0] Cons obtain pre post
          where rest: "replaceFrom 0 (anyTag []) cs = pre @ post"
            "CHR ''<'' \<notin> set pre" "CHR ''>'' \<notin> set post"
          by auto
        show ?thesis
        proof (cases "c = CHR ''<''")
          case False
          with None rest have "replaceFrom 0 (anyTag []) (c # cs) = (c # pre) @ post
              \<and> CHR ''<'' \<notin> set (c # pre) \<and> CHR ''>'' \<notin> set post"
            by simp
          with 0 Cons show ?thesis by blast
        next
          case True
          with None have "CHR ''>'' \<notin> set cs"
            by (simp add: anyTag_None)
          moreover have "set (replaceFrom 0 (anyTag []) cs) \<subseteq> set cs"
            by (rule set_replaceFrom_deleting) (rule anyTag_deletes)
          ultimately have "CHR ''>'' \<notin> set (replaceFrom 0 (anyTag []) cs)"
            by blast
          with None True
          have "replaceFrom 0 (anyTag []) (c # cs) = [] @ (c # replaceFrom 0 (anyTag []) cs)
              \<and> CHR ''<'' \<notin> set [] \<and> CHR ''>'' \<notin> set (c # replaceFrom 0 (anyTag []) cs)"
            by simp
          with 0 Cons show ?thesis by blast
        qed
      qed
    qed
  qed
qed

lemma htmlToMarkdown_last_pass:
  "\<exists>s. htmlToMarkdown html = replaceAll (anyTag []) s"
  unfolding htmlToMarkdown_def substitutions_def foldl_Cons foldl_Nil by (rule exI) (rule refl)

text \<open>
  C6. \<^verbatim>\<open>htmlToMarkdown\<close> is the thirteen substitutions of the list \<open>substitutions\<close>,
  applied one after the other in that order. For the content
  \<^verbatim>\<open><p>Hello <strong>world</strong></p>\<close> it yields \<^verbatim>\<open>Hello **world**\<close> and two line
  feeds, so \<^verbatim>\<open>Hello **world**\<close> is part of it and no angle bracket is left; the entry
  of that note in the export is its heading, its date line, this body and the rule.
  For every content, the result has no \<open><\<close> with a \<open>>\<close> behind it.
\<close>

theorem htmlToMarkdown_hello:
  "htmlToMarkdown html = foldl (\<lambda>s m. replaceAll m s) html substitutions
   \<and> length substitutions = 13
   \<and> htmlToMarkdown ''<p>Hello <strong>world</strong></p>'' = ''Hello **world**'' @ [CHR 0x0A, CHR 0x0A]
   \<and> sublist ''Hello **world**'' (htmlToMarkdown ''<p>Hello <strong>world</strong></p>'')
   \<and> CHR ''<'' \<notin> set (htmlToMarkdown ''<p>Hello <strong>world</strong></p>'')
   \<and> CHR ''>'' \<notin> set (htmlToMarkdown ''<p>Hello <strong>world</strong></p>'')
   \<and> fst (exportContent h env ''md'' [n\<lparr>content := ''<p>Hello <strong>world</strong></p>''\<rparr>]) =
       ''# '' @ title n @ [CHR 0x0A, CHR 0x0A]
       @ ''*Modified: '' @ formatDate h (msNow env) (modified n) @ ''*'' @ [CHR 0x0A, CHR 0x0A]
       @ ''Hello **world**'' @ [CHR 0x0A, CHR 0x0A] @ [CHR 0x0A, CHR 0x0A] @ ''---''
       @ [CHR 0x0A, CHR 0x0A]
   \<and> (\<nexists>before inside after.
         htmlToMarkdown html = before @ CHR ''<'' # inside @ CHR ''>'' # after)"
proof -
  have ex: "htmlToMarkdown ''<p>Hello <strong>world</strong></p>'' = ''Hello **world**'' @ [CHR 0x0A, CHR 0x0A]"
    by (simp add: htmlToMarkdown_def substitutions_def replaceAll_def tagPair_def literal_def
          lineBreak_def anyTag_def lineTerminator_def)
  have part: "sublist ''Hello **world**'' (''Hello **world**'' @ [CHR 0x0A, CHR 0x0A])"
    unfolding sublist_def by (rule exI[of _ "[]"]) simp
  have none: "\<nexists>before inside after. htmlToMarkdown html = before @ CHR ''<'' # inside @ CHR ''>'' # after"
  proof
    assume "\<exists>before inside after. htmlToMarkdown html = before @ CHR ''<'' # inside @ CHR ''>'' # after"
    then obtain before inside after
      where tag: "htmlToMarkdown html = before @ CHR ''<'' # inside @ CHR ''>'' # after"
      by blast
    from htmlToMarkdown_last_pass[of html] replaceFrom_anyTag_shape obtain pre post
      where shape: "htmlToMarkdown html = pre @ post" "CHR ''<'' \<notin> set pre" "CHR ''>'' \<notin> set post"
      unfolding replaceAll_def by metis
    from tag shape(1) have eq: "pre @ post = before @ CHR ''<'' # inside @ CHR ''>'' # after"
      by simp
    show False
    proof (cases "length pre \<le> length before")
      case True
      with eq obtain zs where "post = zs @ CHR ''<'' # inside @ CHR ''>'' # after"
        by (auto simp: append_eq_append_conv2 append_eq_Cons_conv)
      with shape(3) show False by simp
    next
      case False
      with eq obtain zs where "pre = before @ CHR ''<'' # zs"
        by (auto simp: append_eq_append_conv2 append_eq_Cons_conv)
      with shape(2) show False by simp
    qed
  qed
  from ex part none show ?thesis
    by (simp add: htmlToMarkdown_def[of html] substitutions_def[THEN arg_cong[of _ _ length]]
          exportContent_def mdEntry_def)
qed

subsection \<open>Exporting an empty collection\<close>

lemma exportContent_empty:
  "exportContent h env format [] =
     (if format = ''json'' then (''[]'', ''.json'')
      else if format = ''txt'' then ([], ''.txt'')
      else if format = ''md'' then ([], ''.md'')
      else if format = ''html''
        then (popupHtmlHead @ localeToday env @ popupHtmlMid @ popupHtmlTail, ''.html'')
      else ([], []))"
  by (simp add: exportContent_def JSON_stringify_def)

text \<open>
  C10. When the backend holds no notes (no \<open>notes\<close> key or an empty array), the export
  of the options page, whatever the format, only reads the backend and shows the error
  status \<open>No notes to export\<close>: no file is downloaded. The export of the popup with an
  empty collection still downloads a file, whose content is the serialisation of the
  empty collection in the format chosen (\<open>[]\<close> for the structured-data format), and
  reports success.
\<close>

theorem export_of_empty_collection:
  assumes "storage s = None \<or> storage s = Some []"
    and "notes s = []"
  shows "optionsExportAllNotes h env format True s =
           s\<lparr>events := events s @ [StorageGet, SaveStatus ''No notes to export'' ''error'']\<rparr>
         \<and> exportAllNotes h env s =
             s\<lparr>events := events s @
                  [Download
                     (fst (exportContent h env
                             (case exportFormat s of None \<Rightarrow> ''json''
                              | Some f \<Rightarrow> if f = [] then ''json'' else f) []))
                     (''notes_'' @ takeWhile (\<lambda>c. c \<noteq> CHR ''T'') (isoNow env)
                      @ snd (exportContent h env
                               (case exportFormat s of None \<Rightarrow> ''json''
                                | Some f \<Rightarrow> if f = [] then ''json'' else f) [])),
                   SaveStatus ''All notes exported!'' ''success'']\<rparr>
         \<and> fst (exportContent h env ''json'' []) = ''[]''
         \<and> fst (exportContent h env ''txt'' []) = []
         \<and> fst (exportContent h env ''md'' []) = []
         \<and> fst (exportContent h env ''html'' []) =
             popupHtmlHead @ localeToday env @ popupHtmlMid @ popupHtmlTail"
proof -
  from assms(1) have "optionsExportAllNotes h env format True s =
      s\<lparr>events := events s @ [StorageGet, SaveStatus ''No notes to export'' ''error'']\<rparr>"
    by (auto simp: optionsExportAllNotes_def Let_def state_ops)
  moreover from assms(2) have "collection s = []"
    by (simp add: collection_def)
  then have "exportAllNotes h env s =
      s\<lparr>events := events s @
           [Download
              (fst (exportContent h env
                      (case exportFormat s of None \<Rightarrow> ''json''
                       | Some f \<Rightarrow> if f = [] then ''json'' else f) []))
              (''notes_'' @ takeWhile (\<lambda>c. c \<noteq> CHR ''T'') (isoNow env)
               @ snd (exportContent h env
                        (case exportFormat s of None \<Rightarrow> ''json''
                         | Some f \<Rightarrow> if f = [] then ''json'' else f) [])),
            SaveStatus ''All notes exported!'' ''success'']\<rparr>"
    by (simp add: exportAllNotes_def Let_def downloadFile_def state_ops split_beta)
  ultimately show ?thesis
    by (simp add: exportContent_empty)
qed

theorem export_of_empty_collection_witness:
  "events (optionsExportAllNotes example_host export_today (Some ''json'') True popup_empty)
     = [StorageGet, SaveStatus ''No notes to export'' ''error'']
   \<and> events (optionsExportAllNotes example_host export_today (Some ''html'') True popup_empty)
     = [StorageGet, SaveStatus ''No notes to export'' ''error'']
   \<and> events (exportAllNotes example_host export_today popup_empty)
     = [Download ''[]'' ''notes_2024-06-01.json'', SaveStatus ''All notes exported!'' ''success'']
   \<and> events (exportAllNotes example_host export_today (popup_empty\<lparr>exportFormat := Some ''md''\<rparr>))
     = [Download [] ''notes_2024-06-01.md'', SaveStatus ''All notes exported!'' ''success'']"
  using export_of_empty_collection [of popup_empty example_host export_today "Some ''json''"]
        export_of_empty_collection [of popup_empty example_host export_today "Some ''html''"]
        export_of_empty_collection
          [of "popup_empty\<lparr>exportFormat := Some ''md''\<rparr>" example_host export_today "Some ''md''"]
  by (simp add: popup_empty_def popup_start_def export_today_def exportContent_empty)

subsection \<open>The structured-data export read back\<close>

text \<open>A quoted string is read back as the string.\<close>

lemma hexValue_hexDigit: "k < 16 \<Longrightarrow> hexValue (hexDigit k) = Some k"
proof -
  assume "k < 16"
  then have "k \<in> {0,1,2,3,4,5,6,7,8,9,10,11,12,13,14,15}" by (simp; arith)
  then show ?thesis
    by (auto simp: hexValue_def hexDigit_def)
qed

lemma parseChars_plain:
  "c \<noteq> CHR 0x22 \<Longrightarrow> c \<noteq> CHR 0x5C \<Longrightarrow> \<not> (of_char c :: nat) < 32
   \<Longrightarrow> parseChars (c # rest) = map_option (apfst ((#) c)) (parseChars rest)"
  by simp

lemma parseChars_escape:
  "e \<noteq> CHR ''u'' \<Longrightarrow> unescape e = Some x
   \<Longrightarrow> parseChars (CHR 0x5C # e # rest) = map_option (apfst ((#) x)) (parseChars rest)"
  by simp

lemma parseChars_unicode:
  assumes "n < 32"
  shows "parseChars (CHR 0x5C # CHR ''u'' # CHR ''0'' # CHR ''0'' # hexDigit (n div 16) # hexDigit (n mod 16) # rest)
           = map_option (apfst ((#) (char_of n))) (parseChars rest)"
proof -
  from assms have "n div 16 < 16" "n mod 16 < 16" by auto
  then have "hexValue (hexDigit (n div 16)) = Some (n div 16)" "hexValue (hexDigit (n mod 16)) = Some (n mod 16)"
    by (simp_all add: hexValue_hexDigit)
  moreover have "hexValue CHR ''0'' = Some 0" by (simp add: hexValue_def)
  ultimately show ?thesis using assms by simp
qed

lemma parseChars_quoteChar:
  "parseChars (quoteChar c @ rest) = map_option (apfst ((#) c)) (parseChars rest)"
proof -
  consider "c = CHR 0x22" | "c = CHR 0x5C" | "c = CHR 0x08" | "c = CHR 0x0C" | "c = CHR 0x0A"
    | "c = CHR 0x0D" | "c = CHR 0x09"
    | "c \<notin> {CHR 0x22, CHR 0x5C, CHR 0x08, CHR 0x0C, CHR 0x0A, CHR 0x0D, CHR 0x09}"
    by blast
  then show ?thesis
  proof cases
    case 8
    show ?thesis
    proof (cases "(of_char c :: nat) < 32")
      case True
      with 8 have q: "quoteChar c = [CHR 0x5C, CHR ''u'', CHR ''0'', CHR ''0'',
                        hexDigit (of_char c div 16), hexDigit (of_char c mod 16)]"
        by (simp add: quoteChar_def)
      show ?thesis
        unfolding q using parseChars_unicode[OF True, of rest] by simp
    next
      case False
      with 8 have q: "quoteChar c = [c]"
        by (simp add: quoteChar_def)
      from 8 False show ?thesis
        unfolding q by (simp del: parseChars.simps add: parseChars_plain)
    qed
  qed (simp_all add: quoteChar_def unescape_def)
qed

lemma parseChars_quoted:
  "parseChars (concat (map quoteChar s) @ CHR 0x22 # rest) = Some (s, rest)"
  by (induction s) (simp_all add: parseChars_quoteChar del: parseChars.simps, simp)


text \<open>
  A serialised value followed by any text is read back as the value, with that text
  left over, whenever the bound on the nesting allows what the value needs.
\<close>

lemma wsOnly_simps [simp]:
  "wsOnly []" "wsOnly (ws @ ''  '') = wsOnly ws" "wsOnly (CHR 0x0A # ws) = wsOnly ws"
  by (auto simp: wsOnly_def json_ws_def)

lemma skipWs_ws: "wsOnly ws \<Longrightarrow> skipWs (ws @ cs) = skipWs cs"
  by (simp add: skipWs_def wsOnly_def dropWhile_append)

lemma skipWs_token [simp]: "\<not> json_ws c \<Longrightarrow> skipWs (c # cs) = c # cs"
  by (simp add: skipWs_def)

lemma json_ws_tokens [simp]:
  "\<not> json_ws CHR 0x22" "\<not> json_ws CHR ''[''" "\<not> json_ws CHR '']''" "\<not> json_ws CHR ''{''"
  "\<not> json_ws CHR ''}''" "\<not> json_ws CHR '',''" "\<not> json_ws CHR '':''"
  "json_ws CHR '' ''" "json_ws CHR 0x0A"
  by (simp_all add: json_ws_def)

lemma parseValue_ws: "wsOnly ws \<Longrightarrow> parseValue n (ws @ cs) = parseValue n cs"
  by (cases n) (simp_all add: skipWs_ws)

lemma parseValue_space: "parseValue n (CHR '' '' # cs) = parseValue n cs"
  using parseValue_ws[of "'' ''" n cs] by (simp add: wsOnly_def)

lemma parseElements_ws: "wsOnly ws \<Longrightarrow> parseElements n (ws @ cs) = parseElements n cs"
  by (cases n) (simp_all add: parseValue_ws)

lemma parseMembers_ws: "wsOnly ws \<Longrightarrow> parseMembers n (ws @ cs) = parseMembers n cs"
  by (cases n) (simp_all add: skipWs_ws)

lemma stringify_head:
  "\<exists>c r. stringify ind v = c # r \<and> (c = CHR 0x22 \<or> c = CHR ''['' \<or> c = CHR ''{'')"
proof (cases v)
  case (JString s)
  then show ?thesis by (simp add: QuoteJSONString_def)
next
  case (JArray vs)
  then show ?thesis by (cases vs) simp_all
next
  case (JObject ms)
  then show ?thesis by (cases ms) simp_all
qed

lemma parseValue_string:
  "parseValue (Suc n) (QuoteJSONString s @ rest) = Some (JString s, rest)"
  by (simp add: QuoteJSONString_def parseChars_quoted)

lemma roundtrip:
  "need v \<le> n \<Longrightarrow> wsOnly ind \<Longrightarrow> parseValue n (stringify ind v @ rest) = Some (v, rest)"
  "vs \<noteq> [] \<Longrightarrow> needElements vs \<le> n \<Longrightarrow> wsOnly step \<Longrightarrow> skipWs behind = CHR '']'' # rest
     \<Longrightarrow> parseElements n (stringifyElements step vs @ behind) = Some (vs, rest)"
  "ms \<noteq> [] \<Longrightarrow> needMembers ms \<le> n \<Longrightarrow> wsOnly step' \<Longrightarrow> skipWs behind = CHR ''}'' # rest
     \<Longrightarrow> parseMembers n (stringifyMembers step' ms @ behind) = Some (ms, rest)"
proof (induction ind v and step vs and step' ms arbitrary: n rest and n rest behind and n rest behind
       rule: stringify_stringifyElements_stringifyMembers.induct)
  case (1 indent s)
  then obtain n' where "n = Suc n'" by (cases n) auto
  then show ?case by (simp add: parseValue_string del: parseValue.simps)
next
  case (2 indent)
  then obtain n' where "n = Suc n'" by (cases n) auto
  then show ?case by simp
next
  case (3 indent v vs)
  then obtain n' where n: "n = Suc n'" "needElements (v # vs) \<le> n'" by (cases n) auto
  let ?step = "indent @ ''  ''"
  from stringify_head[of ?step v] obtain c r where hd: "stringify ?step v = c # r"
    "c = CHR 0x22 \<or> c = CHR ''['' \<or> c = CHR ''{''" by blast
  let ?tl = "CHR 0x0A # indent @ CHR '']'' # rest"
  have tl: "skipWs ?tl = CHR '']'' # rest"
    using 3(3) skipWs_ws[of "CHR 0x0A # indent" "CHR '']'' # rest"] by simp
  have el: "parseElements n' (stringifyElements ?step (v # vs) @ ?tl) = Some (v # vs, rest)"
    using 3(1)[OF _ n(2) _ tl] 3(3) by simp
  have "skipWs (stringifyElements ?step (v # vs) @ ?tl)
          = c # r @ (if vs = [] then [] else '','' @ stringifyElements ?step vs) @ ?tl"
    using 3(3) hd skipWs_ws[of "CHR 0x0A # ?step"] by auto
  moreover have "parseElements n' (c # r @ (if vs = [] then [] else '','' @ stringifyElements ?step vs) @ ?tl)
                   = parseElements n' (stringifyElements ?step (v # vs) @ ?tl)"
    using 3(3) hd parseElements_ws[of "CHR 0x0A # ?step" n'] by simp
  ultimately show ?case
    using n hd el by auto
next
  case (4 indent)
  then obtain n' where "n = Suc n'" by (cases n) auto
  then show ?case by simp
next
  case (5 indent m ms)
  then obtain n' where n: "n = Suc n'" "needMembers (m # ms) \<le> n'" by (cases n) auto
  let ?step = "indent @ ''  ''"
  let ?tl = "CHR 0x0A # indent @ CHR ''}'' # rest"
  have tl: "skipWs ?tl = CHR ''}'' # rest"
    using 5(3) skipWs_ws[of "CHR 0x0A # indent" "CHR ''}'' # rest"] by simp
  have el: "parseMembers n' (stringifyMembers ?step (m # ms) @ ?tl) = Some (m # ms, rest)"
    using 5(1)[OF _ n(2) _ tl] 5(3) by simp
  obtain k v where m: "m = (k, v)" by (cases m)
  have "skipWs (stringifyMembers ?step (m # ms) @ ?tl)
          = CHR 0x22 # tl (QuoteJSONString k) @ '': '' @ stringify ?step v
            @ (if ms = [] then [] else '','' @ stringifyMembers ?step ms) @ ?tl"
    using 5(3) m skipWs_ws[of "CHR 0x0A # ?step"] by (auto simp: QuoteJSONString_def)
  moreover have "parseMembers n' (CHR 0x22 # tl (QuoteJSONString k) @ '': '' @ stringify ?step v
            @ (if ms = [] then [] else '','' @ stringifyMembers ?step ms) @ ?tl)
                   = parseMembers n' (stringifyMembers ?step (m # ms) @ ?tl)"
    using 5(3) m parseMembers_ws[of "CHR 0x0A # ?step" n'] by (simp add: QuoteJSONString_def)
  ultimately show ?case
    using n el by auto
next
  case (6 stepback)
  then show ?case by simp
next
  case (7 stepback v vs)
  then obtain n' where n: "n = Suc n'" "need v \<le> n'" "needElements vs \<le> n'" by (cases n) auto
  let ?REST = "(if vs = [] then [] else '','' @ stringifyElements stepback vs) @ behind"
  have "parseElements n (stringifyElements stepback (v # vs) @ behind)
          = parseElements n (stringify stepback v @ ?REST)"
    using 7(5) parseElements_ws[of "CHR 0x0A # stepback" n] by simp
  moreover have "parseValue n' (stringify stepback v @ ?REST) = Some (v, ?REST)"
    using 7(1)[OF n(2) 7(5)] .
  moreover have "skipWs ?REST = CHR '']'' # rest" if "vs = []"
    using that 7(6) by simp
  moreover have "parseElements n' (stringifyElements stepback vs @ behind) = Some (vs, rest)" if "vs \<noteq> []"
    using 7(2)[OF that that n(3) 7(5) 7(6)] .
  ultimately show ?case
    using n(1) by (cases "vs = []") simp_all
next
  case (8 stepback)
  then show ?case by simp
next
  case (9 stepback k v ms)
  then obtain n' where n: "n = Suc n'" "need v \<le> n'" "needMembers ms \<le> n'" by (cases n) auto
  let ?REST = "(if ms = [] then [] else '','' @ stringifyMembers stepback ms) @ behind"
  have "parseMembers n (stringifyMembers stepback ((k, v) # ms) @ behind)
          = parseMembers n (QuoteJSONString k @ '': '' @ stringify stepback v @ ?REST)"
    using 9(5) parseMembers_ws[of "CHR 0x0A # stepback" n] by simp
  moreover have "parseValue n' (CHR '' '' # stringify stepback v @ ?REST) = Some (v, ?REST)"
    using 9(1)[OF n(2) 9(5)] by (simp add: parseValue_space)
  moreover have "skipWs ?REST = CHR ''}'' # rest" if "ms = []"
    using that 9(6) by simp
  moreover have "parseMembers n' (stringifyMembers stepback ms @ behind) = Some (ms, rest)" if "ms \<noteq> []"
    using 9(2)[OF that that n(3) 9(5) 9(6)] .
  ultimately show ?case
    using n(1) by (cases "ms = []") (simp_all add: QuoteJSONString_def parseChars_quoted)
qed


lemma need_le_length:
  "need v \<le> length (stringify ind v)"
  "needElements vs \<le> length (stringifyElements step vs)"
  "needMembers ms \<le> length (stringifyMembers step' ms)"
  by (induction ind v and step vs and step' ms
      rule: stringify_stringifyElements_stringifyMembers.induct)
     (auto simp: QuoteJSONString_def)

lemma JSON_parse_stringify: "JSON_parse (JSON_stringify v) = Some v"
  using roundtrip(1)[of v "length (stringify [] v)" "[]" "[]"] need_le_length(1)[of v "[]"]
  by (simp add: JSON_parse_def JSON_stringify_def skipWs_def)

lemma asStrings_strings: "asStrings (JArray (map JString ts)) = Some ts"
proof -
  have "those (map asString (map JString ts)) = Some ts"
    by (induction ts) (simp_all add: asString_def)
  then show ?thesis
    by (simp add: asStrings_def)
qed

lemma jsonToNote_noteToJson: "jsonToNote (noteToJson n) = Some n"
  by (cases "tags n"; cases "category n")
     (simp_all add: jsonToNote_def noteToJson_def stringField_def optionalField_def
        asString_def asStrings_strings)

lemma those_jsonToNote: "those (map jsonToNote (map noteToJson ns)) = Some ns"
  by (induction ns) (simp_all add: jsonToNote_noteToJson)

text \<open>
  C5. For every note collection, the text that the structured-data export writes, in
  the popup as in the options page, is read back as the same list of notes: every note
  with the same \<open>id\<close>, \<open>title\<close>, \<open>content\<close>, \<open>created\<close> and \<open>modified\<close>, and with the same
  \<open>tags\<close> and \<open>category\<close> or without them as the original. As values, the parsed array
  is the array that was serialised. In particular the file that the popup downloads
  with the format \<open>json\<close> is read back as the in-memory collection.
\<close>

theorem export_json_roundtrip:
  "parseNotes (fst (exportContent h env ''json'' ns)) = Some ns
   \<and> parseNotes (fst (optionsExportContent h env (Some ''json'') ns)) = Some ns
   \<and> JSON_parse (JSON_stringify (JArray (map noteToJson ns))) = Some (JArray (map noteToJson ns))
   \<and> (exportFormat s = Some ''json'' \<longrightarrow>
        (\<exists>text name. Download text name \<in> set (events (exportAllNotes h env s))
           \<and> parseNotes text = Some (collection s)))"
proof -
  have "parseNotes (JSON_stringify (JArray (map noteToJson ns))) = Some ns" for ns
    by (simp add: parseNotes_def JSON_parse_stringify those_jsonToNote del: map_map)
  then show ?thesis
    by (auto simp: exportContent_def optionsExportContent_def JSON_parse_stringify
          exportAllNotes_def Let_def downloadFile_def)
qed

theorem export_json_roundtrip_witness:
  "JSON_stringify (JArray (map noteToJson [clip])) =
     ''['' @ [CHR 0x0A] @
     ''  {'' @ [CHR 0x0A] @
     ''    '' @ [CHR 0x22] @ ''id'' @ [CHR 0x22] @ '': '' @ [CHR 0x22] @ ''n2'' @ [CHR 0x22] @ '','' @ [CHR 0x0A] @
     ''    '' @ [CHR 0x22] @ ''title'' @ [CHR 0x22] @ '': '' @ [CHR 0x22] @ ''Selection from Docs'' @ [CHR 0x22] @ '','' @ [CHR 0x0A] @
     ''    '' @ [CHR 0x22] @ ''content'' @ [CHR 0x22] @ '': '' @ [CHR 0x22] @ ''<p>HOL is total</p>'' @ [CHR 0x22] @ '','' @ [CHR 0x0A] @
     ''    '' @ [CHR 0x22] @ ''tags'' @ [CHR 0x22] @ '': ['' @ [CHR 0x0A] @
     ''      '' @ [CHR 0x22] @ ''web-clip'' @ [CHR 0x22] @ [CHR 0x0A] @
     ''    ],'' @ [CHR 0x0A] @
     ''    '' @ [CHR 0x22] @ ''category'' @ [CHR 0x22] @ '': '' @ [CHR 0x22] @ ''web'' @ [CHR 0x22] @ '','' @ [CHR 0x0A] @
     ''    '' @ [CHR 0x22] @ ''created'' @ [CHR 0x22] @ '': '' @ [CHR 0x22] @ ''2024-05-03T09:00:00.000Z'' @ [CHR 0x22] @ '','' @ [CHR 0x0A] @
     ''    '' @ [CHR 0x22] @ ''modified'' @ [CHR 0x22] @ '': '' @ [CHR 0x22] @ ''2024-05-03T09:00:00.000Z'' @ [CHR 0x22] @ [CHR 0x0A] @
     ''  }'' @ [CHR 0x0A] @
     '']''
   \<and> parseNotes (fst (exportContent example_host export_today ''json'' [clip])) = Some [clip]
   \<and> parseNotes (fst (exportContent example_host export_today ''json'' [groceries, clip]))
       = Some [groceries, clip]
   \<and> (\<exists>text name. Download text name \<in> set (events (exportAllNotes example_host export_today popup_new))
          \<and> parseNotes text = Some [groceries, clip])"
proof -
  have "exportFormat popup_new = Some ''json''" "collection popup_new = [groceries, clip]"
    by (simp_all add: popup_new_def collection_def)
  with export_json_roundtrip [of example_host export_today "[clip]" popup_new]
       export_json_roundtrip [of example_host export_today "[groceries, clip]" popup_new]
  show ?thesis
    by (simp add: JSON_stringify_def noteToJson_def clip_def QuoteJSONString_def quoteChar_def)
qed

end
